theory Spec2Isabelle
  imports Complex_Main
begin

section \<open>The LED clock (led_clock.py): data model\<close>

text \<open>
  The program is one Python module. Python integers are unbounded and are modelled as
  \<open>int\<close>. A string is a \<open>string\<close>, a list of characters with the code points 0 to
  255 (ASCII and Latin-1); text with other characters is outside this model. A
  \<open>datetime\<close> value is read only
  through its fields, so it is a record of them; \<open>wday\<close> is what \<open>weekday()\<close> returns
  (Monday is 0).
\<close>

record datetime =
  year :: int
  month :: int
  day :: int
  hour :: int
  minute :: int
  second :: int
  microsecond :: int
  wday :: int

text \<open>Exceptions the modelled code can raise; every one is a subclass of \<open>Exception\<close>.\<close>

datatype exn = ValueError | TypeError | OverflowError | IndexError

section \<open>Time-window check\<close>

text \<open>
  \<^verbatim>\<open>
  def _in_window(now, start_hm, end_hm):
      cur = now.hour * 60 + now.minute
      s = start_hm[0] * 60 + start_hm[1]
      e = end_hm[0] * 60 + end_hm[1]
      if s <= e:
          return s <= cur < e
      else:
          return cur >= s or cur < e
  \<close>
\<close>

definition in_window :: "datetime \<Rightarrow> int \<times> int \<Rightarrow> int \<times> int \<Rightarrow> bool" where
  "in_window now start_hm end_hm =
     (let cur = hour now * 60 + minute now;
          s = fst start_hm * 60 + snd start_hm;
          e = fst end_hm * 60 + snd end_hm
      in if s \<le> e then s \<le> cur \<and> cur < e else cur \<ge> s \<or> cur < e)"

section \<open>Python built-ins used by the program\<close>

text \<open>
  \<open>int(s)\<close> on a string: surrounding whitespace is dropped, one sign is allowed, then
  decimal digits, where single underscores may stand between digits. Anything else raises
  \<open>ValueError\<close>. The whitespace \<open>int\<close> drops is tab, line feed, vertical tab, form feed,
  carriage return and space, and of the characters above 127 the two Unicode spaces
  U+0085 and U+00A0; the separators 0x1C to 0x1F, which \<open>str.strip()\<close> drops, are not
  among them. No character from 128 to 255 is a decimal digit.

  A string with more digits than \<open>sys.int_info.default_max_str_digits\<close> (4300, leading
  zeros counted, underscores not) also raises \<open>ValueError\<close>, and so does \<open>str(i)\<close> for an
  integer with more digits than that.
\<close>

definition int_space :: "char \<Rightarrow> bool" where
  "int_space c = (c \<in> set [CHR 0x09, CHR 0x0A, CHR 0x0B, CHR 0x0C, CHR 0x0D, CHR 0x20,
                             CHR 0x85, CHR 0xA0])"

definition str_space :: "char \<Rightarrow> bool" where
  "str_space c = (c \<in> set [CHR 0x09, CHR 0x0A, CHR 0x0B, CHR 0x0C, CHR 0x0D,
                             CHR 0x1C, CHR 0x1D, CHR 0x1E, CHR 0x1F, CHR 0x20,
                             CHR 0x85, CHR 0xA0])"

definition strip_with :: "(char \<Rightarrow> bool) \<Rightarrow> string \<Rightarrow> string" where
  "strip_with sp s = rev (dropWhile sp (rev (dropWhile sp s)))"

text \<open>\<open>s.strip()\<close> drops the whitespace of \<open>str\<close> at both ends.\<close>

definition strip :: "string \<Rightarrow> string" where
  "strip s = strip_with str_space s"

definition is_digit :: "char \<Rightarrow> bool" where
  "is_digit c = (c \<in> set ''0123456789'')"

definition digit_val :: "char \<Rightarrow> int" where
  "digit_val c = int (of_char c) - 48"

definition int_max_str_digits :: nat where
  "int_max_str_digits = 4300"

fun int_body :: "int \<Rightarrow> string \<Rightarrow> int option" where
  "int_body acc [] = Some acc"
| "int_body acc (c # cs) =
     (if c = CHR ''_'' then
        (case cs of [] \<Rightarrow> None
         | d # ds \<Rightarrow> if is_digit d then int_body acc cs else None)
      else if is_digit c then int_body (acc * 10 + digit_val c) cs
      else None)"

definition int_literal :: "string \<Rightarrow> int option" where
  "int_literal s = (case s of [] \<Rightarrow> None
                    | c # cs \<Rightarrow> if is_digit c then int_body 0 s else None)"

definition py_int :: "string \<Rightarrow> exn + int" where
  "py_int s =
     (let t = strip_with int_space s;
          r = (case t of
                 [] \<Rightarrow> None
               | c # cs \<Rightarrow>
                   if c = CHR ''-'' then map_option uminus (int_literal cs)
                   else if c = CHR ''+'' then int_literal cs
                   else int_literal t)
      in case r of
           None \<Rightarrow> Inl ValueError
         | Some v \<Rightarrow>
             if length (filter is_digit t) > int_max_str_digits then Inl ValueError
             else Inr v)"

text \<open>
  \<open>str(i)\<close> on an integer: its decimal digits, with a minus sign when negative.
  \<open>py_str\<close> is the text, \<open>str_int\<close> the call with its limit on the number of digits.
\<close>

definition digit_char :: "nat \<Rightarrow> char" where
  "digit_char n = ''0123456789'' ! n"

fun str_nat :: "nat \<Rightarrow> string" where
  "str_nat n = (if n < 10 then [digit_char n] else str_nat (n div 10) @ [digit_char (n mod 10)])"

definition py_str :: "int \<Rightarrow> string" where
  "py_str i = (if i < 0 then CHR ''-'' # str_nat (nat (- i)) else str_nat (nat i))"

definition str_int :: "int \<Rightarrow> exn + string" where
  "str_int i = (if length (str_nat (nat \<bar>i\<bar>)) > int_max_str_digits then Inl ValueError
                else Inr (py_str i))"

text \<open>
  \<open>s.split(sep)\<close> with a one-character separator: the pieces between the separators,
  always at least one (the empty string splits into one empty piece).
\<close>

fun split_on :: "char \<Rightarrow> string \<Rightarrow> string list" where
  "split_on sep [] = [[]]"
| "split_on sep (c # cs) =
     (if c = sep then [] # split_on sep cs
      else (case split_on sep cs of
              [] \<Rightarrow> [[c]]
            | p # ps \<Rightarrow> (c # p) # ps))"

text \<open>
  \<open>a, b = it\<close> for an iterator whose items are computed on demand (here \<open>map(int, ...)\<close>):
  two items are taken, then a third is asked for to see that there is none. An item that
  raises stops the unpacking with its own exception; too few or too many items raise
  \<open>ValueError\<close>.
\<close>

fun unpack2 :: "(exn + 'a) list \<Rightarrow> exn + ('a \<times> 'a)" where
  "unpack2 [] = Inl ValueError"
| "unpack2 (Inl e # _) = Inl e"
| "unpack2 [Inr a] = Inl ValueError"
| "unpack2 (Inr a # Inl e # _) = Inl e"
| "unpack2 [Inr a, Inr b] = Inr (a, b)"
| "unpack2 (Inr a # Inr b # Inl e # _) = Inl e"
| "unpack2 (Inr a # Inr b # Inr c # _) = Inl ValueError"

section \<open>Configuration helpers\<close>

text \<open>
  The process environment is a map from names to values; \<open>os.getenv(name, default)\<close>
  gives the default when the name is unset.
\<close>

type_synonym environ = "string \<rightharpoonup> string"

definition getenv :: "environ \<Rightarrow> string \<Rightarrow> string \<Rightarrow> string" where
  "getenv env name dflt = (case env name of None \<Rightarrow> dflt | Some v \<Rightarrow> v)"

text \<open>
  \<^verbatim>\<open>
  def _env_int(name, default):
      try:
          return int(os.getenv(name, str(default)))
      except (TypeError, ValueError):
          return default
  \<close>
  \<open>env_int_try\<close> is the body of the \<open>try\<close>: \<open>str(default)\<close> is evaluated first, then
  the lookup, then \<open>int\<close>. The result is a sum: an exception the handler does not name
  would leave the function.
\<close>

definition env_int_try :: "environ \<Rightarrow> string \<Rightarrow> int \<Rightarrow> exn + int" where
  "env_int_try env name dflt =
     (case str_int dflt of
        Inl e \<Rightarrow> Inl e
      | Inr d \<Rightarrow> py_int (getenv env name d))"

definition env_int :: "environ \<Rightarrow> string \<Rightarrow> int \<Rightarrow> exn + int" where
  "env_int env name dflt =
     (case env_int_try env name dflt of
        Inr v \<Rightarrow> Inr v
      | Inl e \<Rightarrow> if e = TypeError \<or> e = ValueError then Inr dflt else Inl e)"

text \<open>
  \<^verbatim>\<open>
  def _env_float(name, default):
      try:
          return float(os.getenv(name, str(default)))
      except (TypeError, ValueError):
          return default
  \<close>
  \<open>float\<close> on a string and \<open>str\<close> on a float belong to the language, not to the
  program: they are parameters, and \<open>'f\<close> is the type of float values.
\<close>

definition env_float ::
  "(string \<Rightarrow> exn + 'f) \<Rightarrow> ('f \<Rightarrow> string) \<Rightarrow> environ \<Rightarrow> string \<Rightarrow> 'f \<Rightarrow> exn + 'f" where
  "env_float py_float str_float env name dflt =
     (case py_float (getenv env name (str_float dflt)) of
        Inr v \<Rightarrow> Inr v
      | Inl e \<Rightarrow> if e = TypeError \<or> e = ValueError then Inr dflt else Inl e)"

text \<open>
  \<^verbatim>\<open>
  def _env_bool(name, default=1):
      try:
          return bool(int(os.getenv(name, str(default))))
      except (TypeError, ValueError):
          return bool(default)
  \<close>
  The body of the \<open>try\<close> is that of \<open>_env_int\<close> with \<open>bool\<close> applied to the result.
\<close>

definition env_bool :: "environ \<Rightarrow> string \<Rightarrow> int \<Rightarrow> exn + bool" where
  "env_bool env name dflt =
     (case env_int_try env name dflt of
        Inr v \<Rightarrow> Inr (v \<noteq> 0)
      | Inl e \<Rightarrow> if e = TypeError \<or> e = ValueError then Inr (dflt \<noteq> 0) else Inl e)"

text \<open>
  \<^verbatim>\<open>
  def _parse_hhmm(s, fallback):
      try:
          h, m = map(int, s.split(":"))
          return (h % 24, m % 60)
      except Exception:
          return fallback
  \<close>
  \<open>parse_hhmm_try\<close> is the body of the \<open>try\<close>; the handler catches every exception it can
  raise. Python's \<open>%\<close> with a positive right operand is \<open>mod\<close> on \<open>int\<close>.
\<close>

definition parse_hhmm_try :: "string \<Rightarrow> exn + (int \<times> int)" where
  "parse_hhmm_try s =
     (case unpack2 (map py_int (split_on CHR '':'' s)) of
        Inl e \<Rightarrow> Inl e
      | Inr (h, m) \<Rightarrow> Inr (h mod 24, m mod 60))"

definition parse_hhmm :: "string \<Rightarrow> int \<times> int \<Rightarrow> int \<times> int" where
  "parse_hhmm s fallback = (case parse_hhmm_try s of Inr hm \<Rightarrow> hm | Inl e \<Rightarrow> fallback)"

text \<open>
  The two calls in \<open>main\<close>:
  \<^verbatim>\<open>
  night_from = _parse_hhmm(os.getenv("LED_NIGHT_FROM", "22:30"), (22, 30))
  night_to   = _parse_hhmm(os.getenv("LED_NIGHT_TO",   "07:00"), (7, 0))
  \<close>
\<close>

definition env_night_from :: "environ \<Rightarrow> int \<times> int" where
  "env_night_from env = parse_hhmm (getenv env ''LED_NIGHT_FROM'' ''22:30'') (22, 30)"

definition env_night_to :: "environ \<Rightarrow> int \<times> int" where
  "env_night_to env = parse_hhmm (getenv env ''LED_NIGHT_TO'' ''07:00'') (7, 0)"

section \<open>Drawing\<close>

text \<open>
  The display is a \<open>luma\<close> device, read only through its width and height. What a routine
  draws on the canvas is the list of its drawing calls, in order: \<open>draw.point((x, y))\<close> is
  \<open>Point x y\<close>, and \<open>legacy_text(draw, (x, y), s, font)\<close> is \<open>Text x y s\<close>. A font is known to
  the program only through the library's \<open>textsize(s, font)\<close>, so it is that function.
\<close>

record device =
  width :: int
  height :: int

datatype draw_op = Point int int | Text int int string

type_synonym font = "string \<Rightarrow> int \<times> int"

subsection \<open>The 3x5 font of the temperature\<close>

definition DIGITS_3x5 :: "char \<Rightarrow> string list option" where
  "DIGITS_3x5 = map_of
     [(CHR ''0'', [''111'', ''101'', ''101'', ''101'', ''111'']),
      (CHR ''1'', [''010'', ''110'', ''010'', ''010'', ''111'']),
      (CHR ''2'', [''111'', ''001'', ''111'', ''100'', ''111'']),
      (CHR ''3'', [''111'', ''001'', ''111'', ''001'', ''111'']),
      (CHR ''4'', [''101'', ''101'', ''111'', ''001'', ''001'']),
      (CHR ''5'', [''111'', ''100'', ''111'', ''001'', ''111'']),
      (CHR ''6'', [''111'', ''100'', ''111'', ''101'', ''111'']),
      (CHR ''7'', [''111'', ''001'', ''010'', ''100'', ''100'']),
      (CHR ''8'', [''111'', ''101'', ''111'', ''101'', ''111'']),
      (CHR ''9'', [''111'', ''101'', ''111'', ''001'', ''111'']),
      (CHR ''-'', [''000'', ''000'', ''111'', ''000'', ''000'']),
      (CHR ''C'', [''111'', ''100'', ''100'', ''100'', ''111''])]"

text \<open>
  \<^verbatim>\<open>
  def small35_text_size(txt, spacing=1):
      w = 0
      for i, ch in enumerate(txt):
          if ch in DIGITS_3x5:
              w += 3
              if i != len(txt) - 1:
                  w += spacing
      return w, 5
  \<close>
  The loop is a fold over the characters with their indices; \<open>n\<close> is \<open>len(txt)\<close>.
\<close>

definition size_step :: "int \<Rightarrow> nat \<Rightarrow> nat \<times> char \<Rightarrow> int \<Rightarrow> int" where
  "size_step spacing n = (\<lambda>(i, ch) w.
     if DIGITS_3x5 ch \<noteq> None
     then (if int i \<noteq> int n - 1 then w + 3 + spacing else w + 3)
     else w)"

definition small35_text_size :: "string \<Rightarrow> int \<Rightarrow> int \<times> int" where
  "small35_text_size txt spacing =
     (fold (size_step spacing (length txt)) (enumerate 0 txt) 0, 5)"






subsection \<open>The time with its colon\<close>

text \<open>
  \<^verbatim>\<open>
  def draw_time_with_custom_colon(draw, device, timestr, font, blink, left_reserved,
                                  gap=1, colon_w=1, colon_vgap=2, time_offset=0):
      if ":" in timestr:
          hh, mm = timestr.split(":", 1)
      else:
          hh, mm = "88", "88"
      w_h, h = textsize(hh, font=font)
      w_m, _ = textsize(mm, font=font)
      w_time = w_h + gap + colon_w + gap + w_m
      if left_reserved + w_time > device.width:
          left_reserved = max(0, device.width - w_time)
      x0 = max(0, device.width - (left_reserved + w_time)) + time_offset
      y = max(0, (device.height - h) // 2)
      legacy_text(draw, (x0 + left_reserved, y), hh, font=font, fill="white")
      cx = x0 + left_reserved + w_h + gap
      if not blink:
          t1 = y + max(0, (h - 1 - colon_vgap) // 2)
          t2 = min(y + h - 1, t1 + colon_vgap)
          draw.point((cx, t1), fill="white")
          draw.point((cx, t2), fill="white")
      legacy_text(draw, (cx + colon_w + gap, y), mm, font=font, fill="white")
  \<close>
  The values computed before the first drawing call are collected in a record (field
  \<open>t_x\<close> for the local variable \<open>x\<close>), so that properties can name them;
  \<open>draw_time_with_custom_colon\<close> is the drawing calls made from them. Python's \<open>//\<close> is
  \<open>div\<close> on \<open>int\<close>.
\<close>

definition split_time :: "string \<Rightarrow> string \<times> string" where
  "split_time timestr =
     (if CHR '':'' \<in> set timestr
      then (takeWhile (\<lambda>c. c \<noteq> CHR '':'') timestr,
            tl (dropWhile (\<lambda>c. c \<noteq> CHR '':'') timestr))
      else (''88'', ''88''))"

record layout =
  t_hh :: string
  t_mm :: string
  t_w_h :: int
  t_w_m :: int
  t_h :: int
  t_w_time :: int
  t_left_reserved :: int
  t_x0 :: int
  t_y :: int
  t_cx :: int

definition time_layout ::
  "device \<Rightarrow> string \<Rightarrow> font \<Rightarrow> int \<Rightarrow> int \<Rightarrow> int \<Rightarrow> int \<Rightarrow> layout" where
  "time_layout dev timestr fnt left_reserved0 gap colon_w time_offset =
     (let (hh, mm) = split_time timestr;
          (w_h, h) = fnt hh;
          w_m = fst (fnt mm);
          w_time = w_h + gap + colon_w + gap + w_m;
          left_reserved = (if left_reserved0 + w_time > width dev
                           then max 0 (width dev - w_time) else left_reserved0);
          x0 = max 0 (width dev - (left_reserved + w_time)) + time_offset;
          y = max 0 ((height dev - h) div 2);
          cx = x0 + left_reserved + w_h + gap
      in \<lparr>t_hh = hh, t_mm = mm, t_w_h = w_h, t_w_m = w_m, t_h = h, t_w_time = w_time,
          t_left_reserved = left_reserved, t_x0 = x0, t_y = y, t_cx = cx\<rparr>)"

definition draw_colon :: "bool \<Rightarrow> layout \<Rightarrow> int \<Rightarrow> draw_op list" where
  "draw_colon blink l colon_vgap =
     (if \<not> blink
      then (let t1 = t_y l + max 0 ((t_h l - 1 - colon_vgap) div 2);
                t2 = min (t_y l + t_h l - 1) (t1 + colon_vgap)
            in [Point (t_cx l) t1, Point (t_cx l) t2])
      else [])"

definition draw_time_with_custom_colon ::
  "device \<Rightarrow> string \<Rightarrow> font \<Rightarrow> bool \<Rightarrow> int \<Rightarrow> int \<Rightarrow> int \<Rightarrow> int \<Rightarrow> int \<Rightarrow> draw_op list" where
  "draw_time_with_custom_colon dev timestr fnt blink left_reserved0 gap colon_w colon_vgap
       time_offset =
     (let l = time_layout dev timestr fnt left_reserved0 gap colon_w time_offset
      in [Text (t_x0 l + t_left_reserved l) (t_y l) (t_hh l)]
         @ draw_colon blink l colon_vgap
         @ [Text (t_cx l + colon_w + gap) (t_y l) (t_mm l)])"

section \<open>Frames and animations\<close>

text \<open>
  A frame is what one \<open>with canvas(device) as draw:\<close> block puts on the display: the
  drawing routines it calls, with their arguments, in order. (The time is always drawn
  with the time font and the ticker with the ticker font, so a call does not name its
  font.) What an animation does is a list of frames and of calls to \<open>time.sleep\<close>, and
  the exception that ended it, if one did. The calls to the display library are taken
  to return.
\<close>

datatype call =
    Small35 int int string int
  | TimeColon string bool int int int int int
  | LegacyText int int string
  | SecondsBar datetime int int bool

datatype 'f tick = Frame "call list" | Sleep 'f

text \<open>
  The global flag \<open>stop\<close> is set by the signal handler at any moment. Each animation
  tests it at the start of every round of its loop; \<open>stop k\<close> is the value the \<open>k\<close>-th
  test of one call reads, counted from 0.
\<close>

type_synonym stop_flag = "nat \<Rightarrow> bool"

text \<open>
  \<open>time.sleep(d)\<close> returns after the delay or raises: \<open>ValueError\<close> for a negative
  delay and for NaN, \<open>OverflowError\<close> for a delay beyond what the platform can count. It
  is the library's, so it is a parameter: \<open>sleep d\<close> is the exception that
  \<open>time.sleep(d)\<close> raises, \<open>None\<close> when it returns.
\<close>

type_synonym 'f sleeper = "'f \<Rightarrow> exn option"

subsection \<open>The date ticker\<close>

text \<open>
  \<open>xs[i]\<close> on a list: a negative index counts from the end, an index outside the list
  raises \<open>IndexError\<close>.
\<close>

definition py_getitem :: "'a list \<Rightarrow> int \<Rightarrow> exn + 'a" where
  "py_getitem xs i =
     (if 0 \<le> i \<and> i < int (length xs) then Inr (xs ! nat i)
      else if - int (length xs) \<le> i \<and> i < 0 then Inr (xs ! nat (int (length xs) + i))
      else Inl IndexError)"

text \<open>
  \<^verbatim>\<open>
  WD_EN = ["Mon", "Tue", "Wed", "Thu", "Fri", "Sat", "Sun"]
  MO_EN = ["Jan", "Feb", "Mar", "Apr", "May", "Jun",
           "Jul", "Aug", "Sep", "Oct", "Nov", "Dec"]

  def format_en_date(dt, with_year=True):
      base = f"{WD_EN[(dt.weekday()) % 7]} {dt.day:02d} {MO_EN[dt.month - 1]}"
      return f"{base} {dt.year}" if with_year else base
  \<close>
  \<open>fmt_02d\<close> is the format \<open>02d\<close>: at least two characters, padded with a zero.
\<close>

definition WD_EN :: "string list" where
  "WD_EN = [''Mon'', ''Tue'', ''Wed'', ''Thu'', ''Fri'', ''Sat'', ''Sun'']"

definition MO_EN :: "string list" where
  "MO_EN = [''Jan'', ''Feb'', ''Mar'', ''Apr'', ''May'', ''Jun'',
            ''Jul'', ''Aug'', ''Sep'', ''Oct'', ''Nov'', ''Dec'']"

definition fmt_02d :: "int \<Rightarrow> string" where
  "fmt_02d i = (if length (py_str i) < 2 then CHR ''0'' # py_str i else py_str i)"

definition format_en_date :: "datetime \<Rightarrow> bool \<Rightarrow> exn + string" where
  "format_en_date dt with_year =
     (case py_getitem WD_EN (wday dt mod 7) of
        Inl e \<Rightarrow> Inl e
      | Inr wd \<Rightarrow>
          (case py_getitem MO_EN (month dt - 1) of
             Inl e \<Rightarrow> Inl e
           | Inr mo \<Rightarrow>
               (let base = wd @ '' '' @ fmt_02d (day dt) @ '' '' @ mo
                in Inr (if with_year then base @ '' '' @ py_str (year dt) else base))))"

text \<open>
  \<^verbatim>\<open>
  def marquee_once_legacy(device, text_ascii, font, speed=0.07, gap=16):
      w, h = textsize(text_ascii, font=font)
      total = device.width + w + gap
      for offset in range(0, total, 1):
          if stop:
              return
          x = device.width - offset
          y = max(0, (device.height - h) // 2)
          with canvas(device) as draw:
              legacy_text(draw, (x, y), text_ascii, font=font, fill="white")
          time.sleep(speed)
  \<close>
  \<open>range(0, total, 1)\<close> is the list \<open>[0..total - 1]\<close>, empty when \<open>total \<le> 0\<close>.
\<close>

fun marquee_loop ::
  "'f sleeper \<Rightarrow> stop_flag \<Rightarrow> nat \<Rightarrow> device \<Rightarrow> string \<Rightarrow> int \<Rightarrow> 'f \<Rightarrow> int list
   \<Rightarrow> 'f tick list \<times> exn option" where
  "marquee_loop sleep stop k dev text_ascii th speed [] = ([], None)"
| "marquee_loop sleep stop k dev text_ascii th speed (offset # rest) =
     (if stop k then ([], None)
      else (let frame = Frame [LegacyText (width dev - offset)
                                 (max 0 ((height dev - th) div 2)) text_ascii]
            in case sleep speed of
                 Some e \<Rightarrow> ([frame, Sleep speed], Some e)
               | None \<Rightarrow>
                   (let (ticks, r) = marquee_loop sleep stop (Suc k) dev text_ascii th speed rest
                    in (frame # Sleep speed # ticks, r))))"

definition marquee_once_legacy ::
  "'f sleeper \<Rightarrow> stop_flag \<Rightarrow> device \<Rightarrow> string \<Rightarrow> font \<Rightarrow> 'f \<Rightarrow> int
   \<Rightarrow> 'f tick list \<times> exn option" where
  "marquee_once_legacy sleep stop dev text_ascii fnt speed gap =
     (let (w, th) = fnt text_ascii;
          total = width dev + w + gap
      in marquee_loop sleep stop 0 dev text_ascii th speed [0..total - 1])"

subsection \<open>The minute swipe\<close>

text \<open>
  \<^verbatim>\<open>
  def minute_swipe(device, timestr, time_font, blink, left_reserved, colon_vgap,
                   temp_txt, swipe_px=8, frame_delay=0.03):
      swipe_px = max(1, swipe_px)
      for dx in range(swipe_px, -1, -1):
          if stop:
              return
          with canvas(device) as draw:
              if temp_txt:
                  y0 = (device.height - 5) // 2
                  draw_small35(draw, 0, y0, temp_txt, spacing=1)
              draw_time_with_custom_colon(draw, device, timestr, time_font, blink=False,
                                          left_reserved=left_reserved, gap=1,
                                          colon_w=1, colon_vgap=colon_vgap, time_offset=dx)
          time.sleep(frame_delay)
  \<close>
  The parameter \<open>blink\<close> is not read: every frame passes \<open>blink=False\<close>. \<open>temp_txt\<close> is
  \<open>None\<close> or a string, and counts as true when it is a string that is not empty.
\<close>

definition temp_calls :: "device \<Rightarrow> string option \<Rightarrow> call list" where
  "temp_calls dev temp_txt =
     (case temp_txt of
        None \<Rightarrow> []
      | Some t \<Rightarrow> if t = [] then [] else [Small35 0 ((height dev - 5) div 2) t 1])"

fun swipe_loop ::
  "'f sleeper \<Rightarrow> stop_flag \<Rightarrow> nat \<Rightarrow> device \<Rightarrow> string \<Rightarrow> int \<Rightarrow> int \<Rightarrow> string option
   \<Rightarrow> 'f \<Rightarrow> int list \<Rightarrow> 'f tick list \<times> exn option" where
  "swipe_loop sleep stop k dev timestr left_reserved colon_vgap temp_txt frame_delay [] = ([], None)"
| "swipe_loop sleep stop k dev timestr left_reserved colon_vgap temp_txt frame_delay (dx # rest) =
     (if stop k then ([], None)
      else (let frame = Frame (temp_calls dev temp_txt
                               @ [TimeColon timestr False left_reserved 1 1 colon_vgap dx])
            in case sleep frame_delay of
                 Some e \<Rightarrow> ([frame, Sleep frame_delay], Some e)
               | None \<Rightarrow>
                   (let (ticks, r) = swipe_loop sleep stop (Suc k) dev timestr left_reserved
                                       colon_vgap temp_txt frame_delay rest
                    in (frame # Sleep frame_delay # ticks, r))))"

definition minute_swipe ::
  "'f sleeper \<Rightarrow> stop_flag \<Rightarrow> device \<Rightarrow> string \<Rightarrow> bool \<Rightarrow> int \<Rightarrow> int \<Rightarrow> string option
   \<Rightarrow> int \<Rightarrow> 'f \<Rightarrow> 'f tick list \<times> exn option" where
  "minute_swipe sleep stop dev timestr blink left_reserved colon_vgap temp_txt swipe_px
       frame_delay =
     swipe_loop sleep stop 0 dev timestr left_reserved colon_vgap temp_txt frame_delay
       (rev [0..max 1 swipe_px])"

text \<open>
  For the properties: the frames of an animation, in order, and one round of the
  marquee's loop at a given offset.
\<close>

definition marquee_frame :: "device \<Rightarrow> string \<Rightarrow> int \<Rightarrow> 'f \<Rightarrow> int \<Rightarrow> 'f tick list" where
  "marquee_frame dev t th sp off =
     [Frame [LegacyText (width dev - off) (max 0 ((height dev - th) div 2)) t], Sleep sp]"

fun frames_of :: "'f tick list \<Rightarrow> call list list" where
  "frames_of [] = []"
| "frames_of (Frame f # rest) = f # frames_of rest"
| "frames_of (Sleep d # rest) = frames_of rest"

section \<open>Temperature\<close>

text \<open>
  A Python float is a finite number, an infinity or NaN; a finite float is the rational
  number it stands for. The expression below mixes the integers \<open>-99\<close> and \<open>199\<close> with the
  float reading, so a number is either. Python compares an integer and a float by their
  exact values, and every comparison with NaN is false.
\<close>

datatype pyfloat = Finite rat | PosInf | NegInf | NaN

datatype pynum = IntV int | FloatV pyfloat

fun float_lt :: "pyfloat \<Rightarrow> pyfloat \<Rightarrow> bool" where
  "float_lt (Finite a) (Finite b) = (a < b)"
| "float_lt (Finite a) PosInf = True"
| "float_lt NegInf (Finite b) = True"
| "float_lt NegInf PosInf = True"
| "float_lt _ _ = False"

fun as_float :: "pynum \<Rightarrow> pyfloat" where
  "as_float (IntV i) = Finite (of_int i)"
| "as_float (FloatV f) = f"

definition num_lt :: "pynum \<Rightarrow> pynum \<Rightarrow> bool" where
  "num_lt a b = float_lt (as_float a) (as_float b)"

text \<open>
  \<open>min(a, b)\<close> keeps \<open>a\<close> unless \<open>b < a\<close>; \<open>max(a, b)\<close> keeps \<open>a\<close> unless \<open>b > a\<close>.
\<close>

definition py_min :: "pynum \<Rightarrow> pynum \<Rightarrow> pynum" where
  "py_min a b = (if num_lt b a then b else a)"

definition py_max :: "pynum \<Rightarrow> pynum \<Rightarrow> pynum" where
  "py_max a b = (if num_lt a b then b else a)"

text \<open>
  \<open>round(x)\<close> with one argument gives an integer: \<open>x\<close> itself for an integer, the nearest
  integer for a finite float, the even one of the two when \<open>x\<close> lies halfway. It raises
  \<open>OverflowError\<close> for an infinity and \<open>ValueError\<close> for NaN.
\<close>

definition round_half_even :: "rat \<Rightarrow> int" where
  "round_half_even q =
     (let f = \<lfloor>q\<rfloor>; d = q - of_int f
      in if d < 1 / 2 then f
         else if d > 1 / 2 then f + 1
         else if even f then f else f + 1)"

fun py_round :: "pynum \<Rightarrow> exn + int" where
  "py_round (IntV i) = Inr i"
| "py_round (FloatV (Finite q)) = Inr (round_half_even q)"
| "py_round (FloatV PosInf) = Inl OverflowError"
| "py_round (FloatV NegInf) = Inl OverflowError"
| "py_round (FloatV NaN) = Inl ValueError"

text \<open>
  In \<open>main\<close>:
  \<^verbatim>\<open>
  temp_c = get_cpu_temp_c()
  temp_raw = "--" if temp_c is None else f"{int(round(max(-99, min(199, temp_c))))}"
  \<close>
  \<open>int\<close> of an integer is that integer, and the format of an integer is \<open>str\<close> of it.
\<close>

definition temp_raw :: "pyfloat option \<Rightarrow> exn + string" where
  "temp_raw temp_c =
     (case temp_c of
        None \<Rightarrow> Inr ''--''
      | Some t \<Rightarrow>
          (case py_round (py_max (IntV (- 99)) (py_min (IntV 199) (FloatV t))) of
             Inl e \<Rightarrow> Inl e
           | Inr i \<Rightarrow> Inr (py_str i)))"

text \<open>
  \<^verbatim>\<open>
  def get_cpu_temp_c():
      try:
          with open("/sys/class/thermal/thermal_zone0/temp", "r") as f:
              return int(f.read().strip()) / 1000.0
      except Exception:
          pass
      try:
          out = subprocess.check_output(["vcgencmd", "measure_temp"],
                                        stderr=subprocess.DEVNULL).decode()
          m = re.search(r"temp=([\d\.]+)", out)
          if m:
              return float(m.group(1))
      except Exception:
          pass
      return None
  \<close>
  The two sources are inputs: \<open>sensor\<close> is what reading the file gives and \<open>vcgencmd\<close>
  what the command prints, each an exception when that fails. The division of an integer
  by \<open>1000.0\<close> and \<open>float\<close> of a string are the language's, and parameters here.
  \<open>re_search_temp\<close> is the search for the pattern: the first place where \<open>temp=\<close> is
  followed by a digit or a dot, and the longest run of digits and dots from there.
\<close>

definition digit_or_dot :: "char \<Rightarrow> bool" where
  "digit_or_dot c = (is_digit c \<or> c = CHR ''.'')"

fun re_search_temp :: "string \<Rightarrow> string option" where
  "re_search_temp [] = None"
| "re_search_temp (c # cs) =
     (if take 5 (c # cs) = ''temp='' \<and> takeWhile digit_or_dot (drop 5 (c # cs)) \<noteq> []
      then Some (takeWhile digit_or_dot (drop 5 (c # cs)))
      else re_search_temp cs)"

definition read_sensor :: "(int \<Rightarrow> exn + pyfloat) \<Rightarrow> exn + string \<Rightarrow> exn + pyfloat" where
  "read_sensor div_1000 sensor =
     (case sensor of
        Inl e \<Rightarrow> Inl e
      | Inr content \<Rightarrow>
          (case py_int (strip content) of
             Inl e \<Rightarrow> Inl e
           | Inr n \<Rightarrow> div_1000 n))"

definition read_vcgencmd ::
  "(string \<Rightarrow> exn + pyfloat) \<Rightarrow> exn + string \<Rightarrow> exn + pyfloat option" where
  "read_vcgencmd py_float vcgencmd =
     (case vcgencmd of
        Inl e \<Rightarrow> Inl e
      | Inr out \<Rightarrow>
          (case re_search_temp out of
             None \<Rightarrow> Inr None
           | Some g \<Rightarrow>
               (case py_float g of
                  Inl e \<Rightarrow> Inl e
                | Inr t \<Rightarrow> Inr (Some t))))"

definition get_cpu_temp_c ::
  "(int \<Rightarrow> exn + pyfloat) \<Rightarrow> (string \<Rightarrow> exn + pyfloat) \<Rightarrow> exn + string \<Rightarrow> exn + string
   \<Rightarrow> pyfloat option" where
  "get_cpu_temp_c div_1000 py_float sensor vcgencmd =
     (case read_sensor div_1000 sensor of
        Inr t \<Rightarrow> Some t
      | Inl e \<Rightarrow>
          (case read_vcgencmd py_float vcgencmd of
             Inr (Some t) \<Rightarrow> Some t
           | Inr None \<Rightarrow> None
           | Inl e' \<Rightarrow> None))"

section \<open>The main loop\<close>

text \<open>
  \<open>main\<close> reads its settings once, then repeats the body of \<open>while not stop:\<close>. The
  settings are a record (\<open>'f\<close> is the type of float values: delays and clock readings),
  and so are the variables that live across rounds. One round of the loop is a function
  of the settings, of these variables and of what the round observes of the world: the
  wall clock, the monotonic clock at its two readings, the CPU temperature, the
  environment when \<open>LED_DRAW_TEMP\<close> is read, and the \<open>stop\<close> flag as each animation
  tests it. It gives what the round does to the display, in order, and then the new
  variables, or the exception that leaves the loop. \<open>time.sleep\<close> and \<open>strftime\<close> are
  the library's, parameters of the round; each may raise.
\<close>

record 'f config =
  time_font :: font
  ticker_font :: font
  time_fmt :: string
  blink_colon :: int
  colon_vgap :: int
  ticker_every :: 'f
  ticker_speed :: 'f
  ticker_gap :: int
  ticker_with_year :: int
  show_unit_c :: int
  auto_dim :: bool
  day_brt :: int
  night_brt :: int
  night_from :: "int \<times> int"
  night_to :: "int \<times> int"
  seconds_bar :: bool
  seconds_bar_dots :: bool
  sparkle_on_hour :: bool
  sparkle_duration :: 'f
  sparkle_density :: 'f
  sparkle_fps :: int
  minute_swipe_en :: bool
  minute_swipe_px :: int
  minute_swipe_dt :: 'f

record 'f loop_state =
  current_brt :: int
  last_minute_for_dim :: int
  last_rendered_minute :: "int option"
  last_ticker_ts :: 'f

record 'f observed =
  obs_now :: datetime
  obs_mono_ticker :: 'f
  obs_mono_after :: 'f
  obs_temp_c :: "pyfloat option"
  obs_env :: environ
  obs_stop_marquee :: stop_flag
  obs_stop_swipe :: stop_flag

text \<open>
  What a round does to the display: \<open>device.contrast(n)\<close>, the hour sparkle (random, so
  only its call is recorded), the marquee and the minute swipe with their frames, the
  normal frame, and the closing \<open>time.sleep(0.2)\<close>.
\<close>

datatype 'f event =
    Contrast int
  | HourSparkle 'f 'f int
  | Marquee string "'f tick list"
  | MinuteSwipe "'f tick list"
  | Draw "call list"
  | SleepTick

text \<open>
  \<^verbatim>\<open>
  if auto_dim and now.minute != last_minute_for_dim:
      last_minute_for_dim = now.minute
      target = night_brt if _in_window(now, night_from, night_to) else day_brt
      if target != current_brt:
          device.contrast(target)
          current_brt = target
  \<close>
\<close>

definition dim_step ::
  "'f config \<Rightarrow> 'f loop_state \<Rightarrow> datetime \<Rightarrow> 'f event list \<times> 'f loop_state" where
  "dim_step cfg st nw =
     (if auto_dim cfg \<and> minute nw \<noteq> last_minute_for_dim st then
        (let st1 = st\<lparr>last_minute_for_dim := minute nw\<rparr>;
             target = (if in_window nw (night_from cfg) (night_to cfg)
                       then night_brt cfg else day_brt cfg)
         in if target \<noteq> current_brt st1
            then ([Contrast target], st1\<lparr>current_brt := target\<rparr>)
            else ([], st1))
      else ([], st))"

text \<open>
  \<^verbatim>\<open>
  if sparkle_on_hour and now.minute == 0 and now.second == 0:
      hour_sparkle(device, duration=sparkle_duration,
                   density=sparkle_density, fps=sparkle_fps)
  \<close>
\<close>

definition sparkle_step :: "'f config \<Rightarrow> datetime \<Rightarrow> 'f event list" where
  "sparkle_step cfg nw =
     (if sparkle_on_hour cfg \<and> minute nw = 0 \<and> second nw = 0
      then [HourSparkle (sparkle_duration cfg) (sparkle_density cfg) (sparkle_fps cfg)]
      else [])"

text \<open>
  \<^verbatim>\<open>
  if time.monotonic() - last_ticker_ts >= ticker_every and not (now.minute == 0 and now.second == 0):
      txt = format_en_date(now, with_year=bool(ticker_with_year))
      marquee_once_legacy(device, txt, font=ticker_font, speed=ticker_speed, gap=ticker_gap)
      last_ticker_ts = time.monotonic()
  \<close>
  The subtraction and the comparison are those of the float type.
\<close>

definition ticker_due :: "'f::{minus,ord} config \<Rightarrow> 'f loop_state \<Rightarrow> 'f observed \<Rightarrow> bool" where
  "ticker_due cfg st ob =
     (obs_mono_ticker ob - last_ticker_ts st \<ge> ticker_every cfg
      \<and> \<not> (minute (obs_now ob) = 0 \<and> second (obs_now ob) = 0))"

definition ticker_step ::
  "'f sleeper \<Rightarrow> device \<Rightarrow> 'f::{minus,ord} config \<Rightarrow> 'f loop_state \<Rightarrow> 'f observed
   \<Rightarrow> 'f event list \<times> (exn + 'f loop_state)" where
  "ticker_step sleep dev cfg st ob =
     (if ticker_due cfg st ob then
        (case format_en_date (obs_now ob) (ticker_with_year cfg \<noteq> 0) of
           Inl e \<Rightarrow> ([], Inl e)
         | Inr t \<Rightarrow>
             (let (ticks, r) = marquee_once_legacy sleep (obs_stop_marquee ob) dev t
                                 (ticker_font cfg) (ticker_speed cfg) (ticker_gap cfg)
              in case r of
                   Some e \<Rightarrow> ([Marquee t ticks], Inl e)
                 | None \<Rightarrow> ([Marquee t ticks], Inr (st\<lparr>last_ticker_ts := obs_mono_after ob\<rparr>))))
      else ([], Inr st))"

text \<open>
  \<^verbatim>\<open>
  s = now.strftime(time_fmt)
  blink = bool(blink_colon and (now.second % 2 == 1))
  try:
      hh, mm = s.split(":")
  except ValueError:
      hh, mm = s[:2], s[-2:]
  w_h, h = textsize(hh, font=time_font)
  w_m, _ = textsize(mm, font=time_font)
  w_time = w_h + 1 + 1 + 1 + w_m  # gap=1, colon_w=1, gap=1
  left_alloc_max = max(0, device.width - w_time)
  \<close>
  \<open>s[:2]\<close> and \<open>s[-2:]\<close> are the first and the last two characters, fewer when the
  string is shorter.
\<close>

definition blink_of :: "'f config \<Rightarrow> datetime \<Rightarrow> bool" where
  "blink_of cfg nw = (blink_colon cfg \<noteq> 0 \<and> second nw mod 2 = 1)"

definition split_hh_mm :: "string \<Rightarrow> string \<times> string" where
  "split_hh_mm s =
     (case split_on CHR '':'' s of
        [a, b] \<Rightarrow> (a, b)
      | _ \<Rightarrow> (take 2 s, drop (length s - 2) s))"

definition left_alloc_max :: "device \<Rightarrow> font \<Rightarrow> string \<Rightarrow> int" where
  "left_alloc_max dev fnt s =
     (let (hh, mm) = split_hh_mm s;
          w_h = fst (fnt hh);
          w_m = fst (fnt mm);
          w_time = w_h + 1 + 1 + 1 + w_m
      in max 0 (width dev - w_time))"

text \<open>
  \<^verbatim>\<open>
  temp_c = get_cpu_temp_c()
  temp_raw = "--" if temp_c is None else f"{int(round(max(-99, min(199, temp_c))))}"
  w_nn, _  = small35_text_size(temp_raw)
  w_nnC, _ = small35_text_size(temp_raw + ("C" if show_unit_c else ""))
  temp_txt = None
  left_reserved = 0
  if _env_bool("LED_DRAW_TEMP", 1) and left_alloc_max >= 3:
      if show_unit_c and w_nnC <= left_alloc_max:
          temp_txt = temp_raw + "C"
      elif w_nn <= left_alloc_max:
          temp_txt = temp_raw
      if temp_txt:
          left_reserved = min(left_alloc_max, small35_text_size(temp_txt)[0])
  \<close>
  The result is \<open>temp_txt\<close> and \<open>left_reserved\<close>.
\<close>

definition choose_temp_txt :: "'f config \<Rightarrow> int \<Rightarrow> string \<Rightarrow> string option" where
  "choose_temp_txt cfg lam raw =
     (let w_nn = fst (small35_text_size raw 1);
          w_nnC = fst (small35_text_size (raw @ (if show_unit_c cfg \<noteq> 0 then ''C'' else '''')) 1)
      in if show_unit_c cfg \<noteq> 0 \<and> w_nnC \<le> lam then Some (raw @ ''C'')
         else if w_nn \<le> lam then Some raw
         else None)"

definition temp_step ::
  "'f config \<Rightarrow> int \<Rightarrow> 'f observed \<Rightarrow> exn + (string option \<times> int)" where
  "temp_step cfg lam ob =
     (case temp_raw (obs_temp_c ob) of
        Inl e \<Rightarrow> Inl e
      | Inr raw \<Rightarrow>
          (case env_bool (obs_env ob) ''LED_DRAW_TEMP'' 1 of
             Inl e \<Rightarrow> Inl e
           | Inr draw_temp \<Rightarrow>
               if draw_temp \<and> lam \<ge> 3 then
                 (case choose_temp_txt cfg lam raw of
                    None \<Rightarrow> Inr (None, 0)
                  | Some t \<Rightarrow>
                      if t = [] then Inr (Some t, 0)
                      else Inr (Some t, min lam (fst (small35_text_size t 1))))
               else Inr (None, 0)))"

text \<open>
  \<^verbatim>\<open>
  if minute_swipe_en and (last_rendered_minute is None or now.minute != last_rendered_minute):
      minute_swipe(device, s, time_font, blink=False,
                   left_reserved=left_reserved, colon_vgap=colon_vgap,
                   temp_txt=temp_txt, swipe_px=minute_swipe_px, frame_delay=minute_swipe_dt)
      last_rendered_minute = now.minute
  \<close>
\<close>

definition swipe_step ::
  "'f sleeper \<Rightarrow> device \<Rightarrow> 'f config \<Rightarrow> 'f loop_state \<Rightarrow> 'f observed \<Rightarrow> string
   \<Rightarrow> string option \<Rightarrow> int \<Rightarrow> 'f event list \<times> (exn + 'f loop_state)" where
  "swipe_step sleep dev cfg st ob s temp_txt lr =
     (if minute_swipe_en cfg
         \<and> (last_rendered_minute st = None
            \<or> Some (minute (obs_now ob)) \<noteq> last_rendered_minute st)
      then (let (ticks, r) = minute_swipe sleep (obs_stop_swipe ob) dev s False lr (colon_vgap cfg)
                               temp_txt (minute_swipe_px cfg) (minute_swipe_dt cfg)
            in case r of
                 Some e \<Rightarrow> ([MinuteSwipe ticks], Inl e)
               | None \<Rightarrow> ([MinuteSwipe ticks],
                          Inr (st\<lparr>last_rendered_minute := Some (minute (obs_now ob))\<rparr>)))
      else ([], Inr st))"

text \<open>
  \<^verbatim>\<open>
  with canvas(device) as draw:
      if temp_txt:
          y0 = (device.height - 5) // 2
          draw_small35(draw, 0, y0, temp_txt, spacing=1)
      draw_time_with_custom_colon(draw, device, s, time_font, blink=blink,
                                  left_reserved=left_reserved, gap=1,
                                  colon_w=1, colon_vgap=colon_vgap, time_offset=0)
      if seconds_bar:
          draw_seconds_bar(draw, now, device.width, y=device.height - 1, dotted=seconds_bar_dots)
  time.sleep(0.2)
  \<close>
\<close>

definition normal_frame ::
  "device \<Rightarrow> 'f config \<Rightarrow> datetime \<Rightarrow> string \<Rightarrow> string option \<Rightarrow> int \<Rightarrow> call list" where
  "normal_frame dev cfg nw s temp_txt lr =
     temp_calls dev temp_txt
     @ [TimeColon s (blink_of cfg nw) lr 1 1 (colon_vgap cfg) 0]
     @ (if seconds_bar cfg
        then [SecondsBar nw (width dev) (height dev - 1) (seconds_bar_dots cfg)]
        else [])"

text \<open>
  One round of the loop, the blocks above in the order of the source. An exception ends
  the round where it is raised; what was done to the display before stays done.
\<close>

definition main_step ::
  "'f sleeper \<Rightarrow> (string \<Rightarrow> datetime \<Rightarrow> exn + string) \<Rightarrow> device \<Rightarrow> 'f::{minus,ord} config
   \<Rightarrow> 'f loop_state \<Rightarrow> 'f observed \<Rightarrow> 'f event list \<times> (exn + 'f loop_state)" where
  "main_step sleep strftime dev cfg st ob =
     (let nw = obs_now ob;
          (ev_dim, st1) = dim_step cfg st nw;
          ev_sparkle = sparkle_step cfg nw;
          (ev_ticker, r2) = ticker_step sleep dev cfg st1 ob;
          evs = ev_dim @ ev_sparkle @ ev_ticker
      in case r2 of
           Inl e \<Rightarrow> (evs, Inl e)
         | Inr st2 \<Rightarrow>
             (case strftime (time_fmt cfg) nw of
                Inl e \<Rightarrow> (evs, Inl e)
              | Inr s \<Rightarrow>
                  (case temp_step cfg (left_alloc_max dev (time_font cfg) s) ob of
                     Inl e \<Rightarrow> (evs, Inl e)
                   | Inr (temp_txt, lr) \<Rightarrow>
                       (let (ev_swipe, r3) = swipe_step sleep dev cfg st2 ob s temp_txt lr
                        in case r3 of
                             Inl e \<Rightarrow> (evs @ ev_swipe, Inl e)
                           | Inr st3 \<Rightarrow>
                               (evs @ ev_swipe
                                @ [Draw (normal_frame dev cfg nw s temp_txt lr), SleepTick],
                                Inr st3)))))"

text \<open>For the properties: whether a round ran the ticker, and the frames it drew.\<close>

fun is_marquee :: "'f event \<Rightarrow> bool" where
  "is_marquee (Marquee t fs) = True"
| "is_marquee _ = False"

definition ticker_ran :: "'f event list \<Rightarrow> bool" where
  "ticker_ran evs = list_ex is_marquee evs"

fun event_frames :: "'f event \<Rightarrow> call list list" where
  "event_frames (Marquee t fs) = frames_of fs"
| "event_frames (MinuteSwipe fs) = frames_of fs"
| "event_frames (Draw f) = [f]"
| "event_frames _ = []"

fun call_blinks :: "call \<Rightarrow> bool list" where
  "call_blinks (TimeColon s b lr g cw vg off) = [b]"
| "call_blinks _ = []"

definition time_blinks :: "'f event list \<Rightarrow> bool list" where
  "time_blinks evs = concat (map call_blinks (concat (concat (map event_frames evs))))"

section \<open>Properties\<close>

subsection \<open>Time-window check\<close>

text \<open>
  Claim C1. For every current time and every window given as hour/minute pairs, with
  all three read as minutes since midnight: when start \<open>\<le>\<close> end, the check is true iff
  start \<open>\<le>\<close> now \<open><\<close> end; when start \<open>>\<close> end (the window crosses midnight), it is true
  iff now \<open>\<ge>\<close> start or now \<open><\<close> end. Only the hour and the minute of the current time
  are read: changing any other field (seconds, microseconds, the date) changes nothing.
\<close>

theorem in_window_membership:
  fixes now now' :: datetime and sh sm eh em :: int
  defines "cur \<equiv> hour now * 60 + minute now"
      and "s \<equiv> sh * 60 + sm"
      and "e \<equiv> eh * 60 + em"
  shows "(s \<le> e \<longrightarrow> in_window now (sh, sm) (eh, em) = (s \<le> cur \<and> cur < e))
       \<and> (s > e \<longrightarrow> in_window now (sh, sm) (eh, em) = (cur \<ge> s \<or> cur < e))
       \<and> (hour now' = hour now \<and> minute now' = minute now
            \<longrightarrow> in_window now' (sh, sm) (eh, em) = in_window now (sh, sm) (eh, em))"
  by (simp add: in_window_def cur_def s_def e_def Let_def)

theorem in_window_membership_witness:
  "in_window \<lparr>year = 2025, month = 8, day = 10, hour = 23, minute = 0, second = 0,
              microsecond = 0, wday = 6\<rparr> (22, 30) (7, 0)
   \<and> in_window \<lparr>year = 2025, month = 8, day = 10, hour = 23, minute = 0, second = 59,
              microsecond = 5, wday = 6\<rparr> (22, 30) (7, 0)
   \<and> \<not> in_window \<lparr>year = 2025, month = 8, day = 10, hour = 17, minute = 0, second = 0,
              microsecond = 0, wday = 6\<rparr> (9, 0) (17, 0)
   \<and> \<not> in_window \<lparr>year = 2025, month = 8, day = 10, hour = 17, minute = 0, second = 1,
              microsecond = 0, wday = 6\<rparr> (9, 0) (17, 0)"
  using in_window_membership [where sh = 22 and sm = 30 and eh = 7 and em = 0
          and now = "\<lparr>year = 2025, month = 8, day = 10, hour = 23, minute = 0, second = 0,
              microsecond = 0, wday = 6\<rparr>"
          and now' = "\<lparr>year = 2025, month = 8, day = 10, hour = 23, minute = 0, second = 59,
              microsecond = 5, wday = 6\<rparr>"]
        in_window_membership [where sh = 9 and sm = 0 and eh = 17 and em = 0
          and now = "\<lparr>year = 2025, month = 8, day = 10, hour = 17, minute = 0, second = 0,
              microsecond = 0, wday = 6\<rparr>"
          and now' = "\<lparr>year = 2025, month = 8, day = 10, hour = 17, minute = 0, second = 1,
              microsecond = 0, wday = 6\<rparr>"]
  by simp

subsection \<open>Facts about the built-ins\<close>

declare str_nat.simps [simp del]

lemma digit_char_is_digit: "n < 10 \<Longrightarrow> is_digit (digit_char n)"
proof -
  assume "n < 10"
  then have "n \<in> {0,1,2,3,4,5,6,7,8,9}" by auto
  then show ?thesis by (auto simp: is_digit_def digit_char_def)
qed

lemma digit_val_digit_char: "n < 10 \<Longrightarrow> digit_val (digit_char n) = int n"
proof -
  assume "n < 10"
  then have "n \<in> {0,1,2,3,4,5,6,7,8,9}" by auto
  then show ?thesis by (auto simp: digit_val_def digit_char_def)
qed

lemma is_digit_not_special:
  "is_digit c \<Longrightarrow> c \<noteq> CHR ''_'' \<and> c \<noteq> CHR ''-'' \<and> c \<noteq> CHR ''+'' \<and> c \<noteq> CHR '':''
     \<and> \<not> int_space c \<and> \<not> str_space c"
  by (auto simp: is_digit_def int_space_def str_space_def)

lemma str_nat_digits: "\<forall>c \<in> set (str_nat n). is_digit c"
proof (induction n rule: str_nat.induct)
  case (1 n)
  show ?case
  proof (cases "n < 10")
    case True
    then show ?thesis by (simp add: str_nat.simps[of n] digit_char_is_digit)
  next
    case False
    then show ?thesis using 1 by (simp add: str_nat.simps[of n] digit_char_is_digit)
  qed
qed

lemma str_nat_nonempty: "str_nat n \<noteq> []"
  by (subst str_nat.simps) simp

lemma int_body_snoc:
  "\<forall>c \<in> set ds. is_digit c \<Longrightarrow> is_digit d \<Longrightarrow>
   int_body acc (ds @ [d]) = map_option (\<lambda>v. v * 10 + digit_val d) (int_body acc ds)"
  by (induction ds arbitrary: acc) (auto simp: is_digit_not_special)

lemma int_body_str_nat: "int_body 0 (str_nat n) = Some (int n)"
proof (induction n rule: str_nat.induct)
  case (1 n)
  show ?case
  proof (cases "n < 10")
    case True
    then show ?thesis
      by (simp add: str_nat.simps[of n] digit_char_is_digit digit_val_digit_char is_digit_not_special)
  next
    case False
    have "int_body 0 (str_nat n) = int_body 0 (str_nat (n div 10) @ [digit_char (n mod 10)])"
      using False by (simp add: str_nat.simps[of n])
    also have "\<dots> = Some (int (n div 10) * 10 + int (n mod 10))"
      using 1 False
      by (simp add: int_body_snoc str_nat_digits digit_char_is_digit digit_val_digit_char)
    also have "int (n div 10) * 10 + int (n mod 10) = int n"
      by (simp add: zmod_int zdiv_int)
    finally show ?thesis .
  qed
qed

lemma int_literal_str_nat: "int_literal (str_nat n) = Some (int n)"
proof -
  obtain c cs where s: "str_nat n = c # cs"
    using str_nat_nonempty by (cases "str_nat n") auto
  then have "is_digit c" using str_nat_digits[of n] by simp
  then show ?thesis using s int_body_str_nat[of n] by (simp add: int_literal_def)
qed

lemma strip_with_id:
  assumes "s \<noteq> []" "\<not> sp (hd s)" "\<not> sp (last s)"
  shows "strip_with sp s = s"
proof -
  have a: "dropWhile sp s = s" using assms by (cases s) auto
  have "rev s \<noteq> []" "\<not> sp (hd (rev s))" using assms by (simp_all add: hd_rev)
  then have "dropWhile sp (rev s) = rev s" by (cases "rev s") auto
  then show ?thesis by (simp add: strip_with_def a)
qed

lemma str_nat_hd_last: "is_digit (hd (str_nat n)) \<and> is_digit (last (str_nat n))"
  using str_nat_digits[of n] str_nat_nonempty[of n] by (metis hd_in_set last_in_set)

lemma filter_digits_str_nat: "filter is_digit (str_nat n) = str_nat n"
  using str_nat_digits[of n] by (simp add: filter_id_conv)

lemma py_int_py_str:
  assumes len: "length (str_nat (nat \<bar>i\<bar>)) \<le> int_max_str_digits"
  shows "py_int (py_str i) = Inr i"
proof (cases "i < 0")
  case True
  let ?s = "CHR ''-'' # str_nat (nat (- i))"
  have "\<not> int_space (last ?s)"
    using str_nat_hd_last[of "nat (- i)"] str_nat_nonempty[of "nat (- i)"]
    by (simp add: is_digit_not_special)
  moreover have "\<not> int_space (hd ?s)" by (simp add: int_space_def)
  ultimately have st: "strip_with int_space ?s = ?s" by (intro strip_with_id) simp_all
  have abs: "nat \<bar>i\<bar> = nat (- i)" using True by simp
  have cnt: "length (filter is_digit ?s) = length (str_nat (nat (- i)))"
    by (simp add: filter_digits_str_nat is_digit_def)
  show ?thesis using True len
    by (simp add: py_int_def py_str_def st int_literal_str_nat cnt abs del: filter.simps)
next
  case False
  let ?s = "str_nat (nat i)"
  obtain c cs where s: "?s = c # cs" using str_nat_nonempty by (cases ?s) auto
  then have d: "is_digit c" using str_nat_digits[of "nat i"] by simp
  have st: "strip_with int_space ?s = ?s"
    using str_nat_hd_last[of "nat i"] str_nat_nonempty[of "nat i"]
    by (intro strip_with_id) (auto simp: is_digit_not_special)
  have abs: "nat \<bar>i\<bar> = nat i" using False by simp
  have cnt: "length (filter is_digit ?s) = length ?s"
    by (simp add: filter_digits_str_nat)
  have lit: "int_literal ?s = Some i"
    using int_literal_str_nat[of "nat i"] False by simp
  have notsign: "c \<noteq> CHR ''-''" "c \<noteq> CHR ''+''" using d by (simp_all add: is_digit_not_special)
  have "py_int ?s = Inr i"
    unfolding py_int_def st Let_def
    using s notsign lit cnt len abs by (simp del: filter.simps)
  then show ?thesis using False by (simp add: py_str_def)
qed

subsection \<open>Configuration helpers\<close>

lemmas py_int_eval = py_int_def strip_with_def int_space_def int_literal_def is_digit_def
  digit_val_def int_max_str_digits_def

lemmas str_int_eval = str_int_def py_str_def str_nat.simps digit_char_def int_max_str_digits_def

lemma py_int_error: "py_int v = Inl e \<Longrightarrow> e = ValueError"
  by (auto simp: py_int_def Let_def split: option.splits if_splits)

lemma str_int_cases: "str_int d = Inl ValueError \<or> str_int d = Inr (py_str d)"
  by (simp add: str_int_def)

lemma env_int_try_error: "env_int_try env name d = Inl e \<Longrightarrow> e = ValueError"
  using str_int_cases[of d] by (auto simp: env_int_try_def dest: py_int_error)

lemma env_int_try_unset:
  "env name = None \<Longrightarrow>
   env_int_try env name d = Inr d \<or> env_int_try env name d = Inl ValueError"
proof (cases "length (str_nat (nat \<bar>d\<bar>)) > int_max_str_digits")
  case True
  then show ?thesis by (simp add: env_int_try_def str_int_def)
next
  case False
  assume "env name = None"
  with False show ?thesis
    by (simp add: env_int_try_def str_int_def getenv_def py_int_py_str)
qed

lemma env_int_try_set:
  "env name = Some v \<Longrightarrow>
   env_int_try env name d = py_int v \<or> env_int_try env name d = Inl ValueError"
  using str_int_cases[of d] by (auto simp: env_int_try_def getenv_def)

lemma env_int_total: "\<exists>r. env_int env name d = Inr r"
  by (cases "env_int_try env name d") (auto simp: env_int_def dest: env_int_try_error)

lemma env_bool_total: "\<exists>r. env_bool env name d = Inr r"
  by (cases "env_int_try env name d") (auto simp: env_bool_def dest: env_int_try_error)

lemma parse_hhmm_2230: "parse_hhmm ''22:30'' fb = (22, 30)"
  by (simp add: parse_hhmm_def parse_hhmm_try_def py_int_eval)

lemma parse_hhmm_0700: "parse_hhmm ''07:00'' fb = (7, 0)"
  by (simp add: parse_hhmm_def parse_hhmm_try_def py_int_eval)

text \<open>
  Claim C8. A value that does not parse never makes a configuration helper fail.
  \<open>_env_int\<close> and \<open>_env_bool\<close> return a value on every environment; when the variable is
  unset, or set to a value \<open>int\<close> rejects, they return the default (\<open>bool(default)\<close> for
  \<open>_env_bool\<close>), and otherwise what was parsed (given that \<open>str(default)\<close> is within the
  limit on digits). \<open>_env_float\<close> returns the default when \<open>float\<close> rejects the value
  with \<open>ValueError\<close>, and when the variable is unset (given that \<open>float(str(x))\<close> is
  \<open>x\<close>). \<open>_parse_hhmm\<close> returns its fallback whenever the parse raises, and the unset
  night window is the documented 22:30 to 07:00.
\<close>

theorem env_helpers_fall_back:
  fixes env :: environ and py_float :: "string \<Rightarrow> exn + 'f" and str_float :: "'f \<Rightarrow> string"
  shows "(\<exists>r. env_int env name d = Inr r)
       \<and> (env name = None \<longrightarrow> env_int env name d = Inr d)
       \<and> (env name = Some v \<and> py_int v = Inl e \<longrightarrow> env_int env name d = Inr d)
       \<and> (env name = Some v \<and> py_int v = Inr i \<and> str_int d = Inr ds
            \<longrightarrow> env_int env name d = Inr i)
       \<and> (\<exists>r. env_bool env name d = Inr r)
       \<and> (env name = None \<longrightarrow> env_bool env name d = Inr (d \<noteq> 0))
       \<and> (env name = Some v \<and> py_int v = Inl e \<longrightarrow> env_bool env name d = Inr (d \<noteq> 0))
       \<and> (env name = Some v \<and> py_int v = Inr i \<and> str_int d = Inr ds
            \<longrightarrow> env_bool env name d = Inr (i \<noteq> 0))
       \<and> (env name = None \<and> py_float (str_float x) = Inr x
            \<longrightarrow> env_float py_float str_float env name x = Inr x)
       \<and> (env name = Some v \<and> (py_float v = Inl ValueError \<or> py_float v = Inl TypeError)
            \<longrightarrow> env_float py_float str_float env name x = Inr x)
       \<and> (env name = Some v \<and> py_float v = Inr y
            \<longrightarrow> env_float py_float str_float env name x = Inr y)
       \<and> (parse_hhmm_try s = Inl e' \<longrightarrow> parse_hhmm s fb = fb)
       \<and> (env ''LED_NIGHT_FROM'' = None \<longrightarrow> env_night_from env = (22, 30))
       \<and> (env ''LED_NIGHT_TO'' = None \<longrightarrow> env_night_to env = (7, 0))"
proof -
  have int_unset: "env name = None \<longrightarrow> env_int env name d = Inr d"
    using env_int_try_unset[of env name d] by (auto simp: env_int_def)
  have int_bad: "env name = Some v \<and> py_int v = Inl e \<longrightarrow> env_int env name d = Inr d"
    using env_int_try_set[of env name v d] py_int_error[of v e] by (auto simp: env_int_def)
  have int_ok: "env name = Some v \<and> py_int v = Inr i \<and> str_int d = Inr ds
      \<longrightarrow> env_int env name d = Inr i"
    by (simp add: env_int_def env_int_try_def getenv_def)
  have bool_unset: "env name = None \<longrightarrow> env_bool env name d = Inr (d \<noteq> 0)"
    using env_int_try_unset[of env name d] by (auto simp: env_bool_def)
  have bool_bad: "env name = Some v \<and> py_int v = Inl e \<longrightarrow> env_bool env name d = Inr (d \<noteq> 0)"
    using env_int_try_set[of env name v d] py_int_error[of v e] by (auto simp: env_bool_def)
  have bool_ok: "env name = Some v \<and> py_int v = Inr i \<and> str_int d = Inr ds
      \<longrightarrow> env_bool env name d = Inr (i \<noteq> 0)"
    by (simp add: env_bool_def env_int_try_def getenv_def)
  have float_unset: "env name = None \<and> py_float (str_float x) = Inr x
            \<longrightarrow> env_float py_float str_float env name x = Inr x"
    by (simp add: env_float_def getenv_def)
  have float_bad: "env name = Some v \<and> (py_float v = Inl ValueError \<or> py_float v = Inl TypeError)
            \<longrightarrow> env_float py_float str_float env name x = Inr x"
    by (auto simp: env_float_def getenv_def)
  have float_ok: "env name = Some v \<and> py_float v = Inr y
            \<longrightarrow> env_float py_float str_float env name x = Inr y"
    by (simp add: env_float_def getenv_def)
  have hhmm_bad: "parse_hhmm_try s = Inl e' \<longrightarrow> parse_hhmm s fb = fb"
    by (simp add: parse_hhmm_def)
  have nf: "env ''LED_NIGHT_FROM'' = None \<longrightarrow> env_night_from env = (22, 30)"
    by (simp add: env_night_from_def getenv_def parse_hhmm_2230)
  have nt: "env ''LED_NIGHT_TO'' = None \<longrightarrow> env_night_to env = (7, 0)"
    by (simp add: env_night_to_def getenv_def parse_hhmm_0700)
  show ?thesis
    using env_int_total[of env name d] env_bool_total[of env name d]
      int_unset int_bad int_ok bool_unset bool_bad bool_ok float_unset float_bad float_ok
      hhmm_bad nf nt
    by blast
qed

theorem env_helpers_fall_back_witness:
  "env_int [''LED_FONT'' \<mapsto> ''abc''] ''LED_FONT'' 1 = Inr 1
   \<and> env_int [''LED_FONT'' \<mapsto> [CHR 0x1F, CHR ''5'']] ''LED_FONT'' 1 = Inr 1
   \<and> env_int Map.empty ''LED_FONT'' 1 = Inr 1
   \<and> env_int [''LED_FONT'' \<mapsto> ''2''] ''LED_FONT'' 1 = Inr 2
   \<and> env_int [''LED_FONT'' \<mapsto> [CHR 0xA0, CHR ''2'']] ''LED_FONT'' 1 = Inr 2
   \<and> env_bool [''LED_AUTO_DIM'' \<mapsto> ''yes''] ''LED_AUTO_DIM'' 1 = Inr True
   \<and> env_bool Map.empty ''LED_AUTO_DIM'' 1 = Inr True
   \<and> env_bool [''LED_AUTO_DIM'' \<mapsto> ''0''] ''LED_AUTO_DIM'' 1 = Inr False
   \<and> env_float (\<lambda>s. if s = ''60.0'' then Inr (60 :: rat) else Inl ValueError) (\<lambda>x. ''60.0'')
         Map.empty ''LED_TICKER_EVERY'' 60 = Inr 60
   \<and> env_float (\<lambda>s. if s = ''60.0'' then Inr (60 :: rat) else Inl ValueError) (\<lambda>x. ''60.0'')
         [''LED_TICKER_EVERY'' \<mapsto> ''fast''] ''LED_TICKER_EVERY'' 60 = Inr 60
   \<and> parse_hhmm ''half past ten'' (22, 30) = (22, 30)
   \<and> env_night_from Map.empty = (22, 30)
   \<and> env_night_to Map.empty = (7, 0)"
proof -
  let ?pf = "\<lambda>s. if s = ''60.0'' then Inr (60 :: rat) else Inl ValueError"
  let ?sf = "\<lambda>x :: rat. ''60.0''"
  have s1: "str_int 1 = Inr ''1''" by (simp add: str_int_eval)
  have p1: "py_int ''abc'' = Inl ValueError" by (simp add: py_int_eval)
  have p2: "py_int [CHR 0x1F, CHR ''5''] = Inl ValueError" by (simp add: py_int_eval)
  have p3: "py_int ''2'' = Inr 2" by (simp add: py_int_eval)
  have p4: "py_int [CHR 0xA0, CHR ''2''] = Inr 2" by (simp add: py_int_eval)
  have p5: "py_int ''yes'' = Inl ValueError" by (simp add: py_int_eval)
  have p6: "py_int ''0'' = Inr 0" by (simp add: py_int_eval)
  have p7: "parse_hhmm_try ''half past ten'' = Inl ValueError"
    by (simp add: parse_hhmm_try_def py_int_eval)
  have a: "env_int [''LED_FONT'' \<mapsto> ''abc''] ''LED_FONT'' 1 = Inr 1
         \<and> parse_hhmm ''half past ten'' (22, 30) = (22, 30)"
    using env_helpers_fall_back [where env = "[''LED_FONT'' \<mapsto> ''abc'']"
          and name = "''LED_FONT''" and d = 1 and v = "''abc''" and e = ValueError and i = 0
          and ds = "''1''" and py_float = ?pf and str_float = ?sf and x = 60 and y = 60
          and s = "''half past ten''" and e' = ValueError and fb = "(22, 30)"] p1 p7
    by simp
  have b: "env_int [''LED_FONT'' \<mapsto> [CHR 0x1F, CHR ''5'']] ''LED_FONT'' 1 = Inr 1"
    using env_helpers_fall_back [where env = "[''LED_FONT'' \<mapsto> [CHR 0x1F, CHR ''5'']]"
          and name = "''LED_FONT''" and d = 1 and v = "[CHR 0x1F, CHR ''5'']" and e = ValueError
          and i = 0 and ds = "''1''" and py_float = ?pf and str_float = ?sf and x = 60 and y = 60
          and s = "''half past ten''" and e' = ValueError and fb = "(22, 30)"] p2
    by simp
  have c: "env_int Map.empty ''LED_FONT'' 1 = Inr 1
         \<and> env_night_from Map.empty = (22, 30) \<and> env_night_to Map.empty = (7, 0)"
    using env_helpers_fall_back [where env = "Map.empty"
          and name = "''LED_FONT''" and d = 1 and v = "''abc''" and e = ValueError and i = 0
          and ds = "''1''" and py_float = ?pf and str_float = ?sf and x = 60 and y = 60
          and s = "''half past ten''" and e' = ValueError and fb = "(22, 30)"]
    by simp
  have d: "env_int [''LED_FONT'' \<mapsto> ''2''] ''LED_FONT'' 1 = Inr 2"
    using env_helpers_fall_back [where env = "[''LED_FONT'' \<mapsto> ''2'']"
          and name = "''LED_FONT''" and d = 1 and v = "''2''" and e = ValueError and i = 2
          and ds = "''1''" and py_float = ?pf and str_float = ?sf and x = 60 and y = 60
          and s = "''half past ten''" and e' = ValueError and fb = "(22, 30)"] p3 s1
    by simp
  have e: "env_int [''LED_FONT'' \<mapsto> [CHR 0xA0, CHR ''2'']] ''LED_FONT'' 1 = Inr 2"
    using env_helpers_fall_back [where env = "[''LED_FONT'' \<mapsto> [CHR 0xA0, CHR ''2'']]"
          and name = "''LED_FONT''" and d = 1 and v = "[CHR 0xA0, CHR ''2'']" and e = ValueError
          and i = 2 and ds = "''1''" and py_float = ?pf and str_float = ?sf and x = 60 and y = 60
          and s = "''half past ten''" and e' = ValueError and fb = "(22, 30)"] p4 s1
    by simp
  have f: "env_bool [''LED_AUTO_DIM'' \<mapsto> ''yes''] ''LED_AUTO_DIM'' 1 = Inr True"
    using env_helpers_fall_back [where env = "[''LED_AUTO_DIM'' \<mapsto> ''yes'']"
          and name = "''LED_AUTO_DIM''" and d = 1 and v = "''yes''" and e = ValueError and i = 0
          and ds = "''1''" and py_float = ?pf and str_float = ?sf and x = 60 and y = 60
          and s = "''half past ten''" and e' = ValueError and fb = "(22, 30)"] p5
    by simp
  have g: "env_bool Map.empty ''LED_AUTO_DIM'' 1 = Inr True"
    using env_helpers_fall_back [where env = "Map.empty"
          and name = "''LED_AUTO_DIM''" and d = 1 and v = "''yes''" and e = ValueError and i = 0
          and ds = "''1''" and py_float = ?pf and str_float = ?sf and x = 60 and y = 60
          and s = "''half past ten''" and e' = ValueError and fb = "(22, 30)"]
    by simp
  have h: "env_bool [''LED_AUTO_DIM'' \<mapsto> ''0''] ''LED_AUTO_DIM'' 1 = Inr False"
    using env_helpers_fall_back [where env = "[''LED_AUTO_DIM'' \<mapsto> ''0'']"
          and name = "''LED_AUTO_DIM''" and d = 1 and v = "''0''" and e = ValueError and i = 0
          and ds = "''1''" and py_float = ?pf and str_float = ?sf and x = 60 and y = 60
          and s = "''half past ten''" and e' = ValueError and fb = "(22, 30)"] p6 s1
    by simp
  have i: "env_float ?pf ?sf Map.empty ''LED_TICKER_EVERY'' 60 = Inr 60"
    using env_helpers_fall_back [where env = "Map.empty"
          and name = "''LED_TICKER_EVERY''" and d = 1 and v = "''fast''" and e = ValueError
          and i = 0 and ds = "''1''" and py_float = ?pf and str_float = ?sf and x = 60 and y = 60
          and s = "''half past ten''" and e' = ValueError and fb = "(22, 30)"]
    by simp
  have j: "env_float ?pf ?sf [''LED_TICKER_EVERY'' \<mapsto> ''fast''] ''LED_TICKER_EVERY'' 60 = Inr 60"
    using env_helpers_fall_back [where env = "[''LED_TICKER_EVERY'' \<mapsto> ''fast'']"
          and name = "''LED_TICKER_EVERY''" and d = 1 and v = "''fast''" and e = ValueError
          and i = 0 and ds = "''1''" and py_float = ?pf and str_float = ?sf and x = 60 and y = 60
          and s = "''half past ten''" and e' = ValueError and fb = "(22, 30)"]
    by simp
  show ?thesis using a b c d e f g h i j by simp
qed

subsection \<open>Parsing HH:MM\<close>

lemma int_body_chars:
  "int_body acc s = Some v \<Longrightarrow> \<forall>c \<in> set s. is_digit c \<or> c = CHR ''_''"
proof (induction s arbitrary: acc)
  case Nil
  then show ?case by simp
next
  case (Cons c cs)
  show ?case
  proof (cases "c = CHR ''_''")
    case True
    with Cons.prems have "int_body acc cs = Some v"
      by (cases cs) (simp_all split: if_splits)
    then show ?thesis using Cons.IH True by simp
  next
    case False
    with Cons.prems have "is_digit c" "int_body (acc * 10 + digit_val c) cs = Some v"
      by (simp_all split: if_splits)
    then show ?thesis using Cons.IH by simp
  qed
qed

lemma int_literal_chars:
  "int_literal s = Some v \<Longrightarrow> \<forall>c \<in> set s. is_digit c \<or> c = CHR ''_''"
proof -
  assume a: "int_literal s = Some v"
  then have "int_body 0 s = Some v"
    by (cases s) (auto simp: int_literal_def split: if_splits)
  then show ?thesis by (rule int_body_chars)
qed


lemma not_colon: "is_digit c \<or> c = CHR ''_'' \<or> c = CHR ''-'' \<or> c = CHR ''+'' \<or> int_space c
  \<Longrightarrow> c \<noteq> CHR '':''"
  by (auto simp: is_digit_def int_space_def)


lemma set_dropWhile_cover: "set s \<subseteq> {c. P c} \<union> set (dropWhile P s)"
  by (induction s) auto


lemma set_strip_cover: "set s \<subseteq> {c. sp c} \<union> set (strip_with sp s)"
proof -
  let ?a = "dropWhile sp s"
  have "set ?a = set (rev ?a)" by simp
  also have "\<dots> \<subseteq> {c. sp c} \<union> set (dropWhile sp (rev ?a))"
    by (rule set_dropWhile_cover)
  finally have "set ?a \<subseteq> {c. sp c} \<union> set (strip_with sp s)" by (simp add: strip_with_def)
  with set_dropWhile_cover[of s sp] show ?thesis by blast
qed


lemma py_int_chars:
  assumes "py_int s = Inr v"
  shows "\<forall>c \<in> set (strip_with int_space s).
           is_digit c \<or> c = CHR ''_'' \<or> c = CHR ''-'' \<or> c = CHR ''+''"
proof (cases "strip_with int_space s")
  case Nil
  then show ?thesis by simp
next
  case (Cons c cs)
  from assms obtain r where r:
    "(if c = CHR ''-'' then map_option uminus (int_literal cs)
      else if c = CHR ''+'' then int_literal cs else int_literal (c # cs)) = Some r"
    unfolding py_int_def Let_def Cons by (simp split: option.splits)
  show ?thesis
  proof (cases "c = CHR ''-'' \<or> c = CHR ''+''")
    case True
    with r obtain r' where "int_literal cs = Some r'" by (auto split: if_splits)
    from int_literal_chars[OF this] True show ?thesis unfolding Cons by auto
  next
    case False
    with r have "int_literal (c # cs) = Some r" by simp
    from int_literal_chars[OF this] show ?thesis unfolding Cons by auto
  qed
qed


lemma py_int_no_colon: "py_int s = Inr v \<Longrightarrow> CHR '':'' \<notin> set s"
proof
  assume ok: "py_int s = Inr v" and "CHR '':'' \<in> set s"
  then have "int_space CHR '':'' \<or> CHR '':'' \<in> set (strip_with int_space s)"
    using set_strip_cover[of s int_space] by auto
  then show False
    using py_int_chars[OF ok] not_colon[of "CHR '':''"] by auto
qed


lemma split_on_nonempty: "split_on sep s \<noteq> []"
  by (induction s) (auto split: list.splits)


lemma split_on_no_sep: "sep \<notin> set s \<Longrightarrow> split_on sep s = [s]"
  by (induction s) auto


lemma split_on_first:
  "sep \<notin> set a \<Longrightarrow> split_on sep (a @ sep # rest) = a # split_on sep rest"
  by (induction a) auto


lemma split_hm:
  "py_int hs = Inr h \<Longrightarrow> py_int ms = Inr m \<Longrightarrow>
   split_on CHR '':'' (hs @ '':'' @ ms) = [hs, ms]"
  by (simp add: split_on_first split_on_no_sep py_int_no_colon)


lemma unpack2_Inr:
  "unpack2 xs = Inr (a, b) \<longleftrightarrow> xs = [Inr a, Inr b]"
  by (induction xs rule: unpack2.induct) auto


text \<open>
  Claim C10. For a string \<open>H:M\<close> whose two parts \<open>int\<close> accepts (negative or out of
  range values included, with the padding and within the number of digits that \<open>int\<close>
  allows), \<open>_parse_hhmm\<close> returns \<open>(H mod 24, M mod 60)\<close>, a pair in
  \<open>[0, 23] \<times> [0, 59]\<close>, whatever the fallback is. In general the result is the wrapped
  pair when the split at colons gives exactly two parts that both parse, and the fallback
  in every other case: a parseable time is wrapped, never rejected.
\<close>

theorem parse_hhmm_wraps:
  "(py_int hs = Inr h \<and> py_int ms = Inr m \<longrightarrow>
      parse_hhmm (hs @ '':'' @ ms) fb = (h mod 24, m mod 60)
      \<and> 0 \<le> h mod 24 \<and> h mod 24 \<le> 23 \<and> 0 \<le> m mod 60 \<and> m mod 60 \<le> 59)
   \<and> (map py_int (split_on CHR '':'' s) = [Inr h', Inr m'] \<longrightarrow>
        parse_hhmm s fb = (h' mod 24, m' mod 60))
   \<and> ((\<nexists>a b. map py_int (split_on CHR '':'' s) = [Inr a, Inr b]) \<longrightarrow>
        parse_hhmm s fb = fb)"
proof -
  have wrap: "py_int hs = Inr h \<and> py_int ms = Inr m \<longrightarrow>
      parse_hhmm (hs @ '':'' @ ms) fb = (h mod 24, m mod 60)"
    using split_hm[of hs h ms m] by (auto simp: parse_hhmm_def parse_hhmm_try_def)
  have range: "0 \<le> h mod 24 \<and> h mod 24 \<le> 23 \<and> 0 \<le> m mod 60 \<and> m mod 60 \<le> 59"
    by presburger
  have two: "map py_int (split_on CHR '':'' s) = [Inr h', Inr m'] \<longrightarrow>
        parse_hhmm s fb = (h' mod 24, m' mod 60)"
    by (simp add: parse_hhmm_def parse_hhmm_try_def)
  have other: "(\<nexists>a b. map py_int (split_on CHR '':'' s) = [Inr a, Inr b]) \<longrightarrow>
        parse_hhmm s fb = fb"
  proof
    assume no: "\<nexists>a b. map py_int (split_on CHR '':'' s) = [Inr a, Inr b]"
    show "parse_hhmm s fb = fb"
    proof (cases "unpack2 (map py_int (split_on CHR '':'' s))")
      case (Inl e)
      then show ?thesis by (simp add: parse_hhmm_def parse_hhmm_try_def)
    next
      case (Inr p)
      then obtain a b where "unpack2 (map py_int (split_on CHR '':'' s)) = Inr (a, b)"
        by (cases p) auto
      with no show ?thesis by (simp add: unpack2_Inr)
    qed
  qed
  show ?thesis using wrap range two other by blast
qed

theorem parse_hhmm_wraps_witness:
  "parse_hhmm ''25:99'' (22, 30) = (1, 39)
   \<and> parse_hhmm ''-1:5'' (22, 30) = (23, 5)
   \<and> parse_hhmm '' 7 : 05 '' (22, 30) = (7, 5)
   \<and> parse_hhmm (CHR 0xA0 # ''7:05'') (22, 30) = (7, 5)
   \<and> parse_hhmm (CHR 0x1C # ''7:05'') (22, 30) = (22, 30)
   \<and> parse_hhmm ''1:2:3'' (22, 30) = (22, 30)
   \<and> parse_hhmm ''2230'' (22, 30) = (22, 30)
   \<and> parse_hhmm ''12:'' (22, 30) = (22, 30)"
proof -
  have p: "py_int ''25'' = Inr 25" "py_int ''99'' = Inr 99" "py_int ''-1'' = Inr (- 1)"
    "py_int ''5'' = Inr 5"
    by (simp_all add: py_int_eval)
  have q: "map py_int (split_on CHR '':'' '' 7 : 05 '') = [Inr 7, Inr 5]"
    "map py_int (split_on CHR '':'' (CHR 0xA0 # ''7:05'')) = [Inr 7, Inr 5]"
    by (simp_all add: py_int_eval)
  have n: "map py_int (split_on CHR '':'' (CHR 0x1C # ''7:05'')) = [Inl ValueError, Inr 5]"
    "map py_int (split_on CHR '':'' ''1:2:3'') = [Inr 1, Inr 2, Inr 3]"
    "map py_int (split_on CHR '':'' ''2230'') = [Inr 2230]"
    "map py_int (split_on CHR '':'' ''12:'') = [Inr 12, Inl ValueError]"
    by (simp_all add: py_int_eval)
  have a: "parse_hhmm ''25:99'' (22, 30) = (1, 39) \<and> parse_hhmm '' 7 : 05 '' (22, 30) = (7, 5)"
    using parse_hhmm_wraps [where hs = "''25''" and h = 25 and ms = "''99''" and m = 99
          and fb = "(22, 30)" and s = "'' 7 : 05 ''" and h' = 7 and m' = 5] p q
    by simp
  have b: "parse_hhmm ''-1:5'' (22, 30) = (23, 5)
         \<and> parse_hhmm (CHR 0xA0 # ''7:05'') (22, 30) = (7, 5)"
    using parse_hhmm_wraps [where hs = "''-1''" and h = "-1" and ms = "''5''" and m = 5
          and fb = "(22, 30)" and s = "CHR 0xA0 # ''7:05''" and h' = 7 and m' = 5] p q
    by simp
  have c: "parse_hhmm (CHR 0x1C # ''7:05'') (22, 30) = (22, 30)"
    using parse_hhmm_wraps [where hs = "''-1''" and h = "-1" and ms = "''5''" and m = 5
          and fb = "(22, 30)" and s = "CHR 0x1C # ''7:05''" and h' = 7 and m' = 5] n
    by simp
  have d: "parse_hhmm ''1:2:3'' (22, 30) = (22, 30)"
    using parse_hhmm_wraps [where hs = "''-1''" and h = "-1" and ms = "''5''" and m = 5
          and fb = "(22, 30)" and s = "''1:2:3''" and h' = 7 and m' = 5] n
    by simp
  have e: "parse_hhmm ''2230'' (22, 30) = (22, 30)"
    using parse_hhmm_wraps [where hs = "''-1''" and h = "-1" and ms = "''5''" and m = 5
          and fb = "(22, 30)" and s = "''2230''" and h' = 7 and m' = 5] n
    by simp
  have f: "parse_hhmm ''12:'' (22, 30) = (22, 30)"
    using parse_hhmm_wraps [where hs = "''-1''" and h = "-1" and ms = "''5''" and m = 5
          and fb = "(22, 30)" and s = "''12:''" and h' = 7 and m' = 5] n
    by simp
  show ?thesis using a b c d e f by simp
qed

subsection \<open>The temperature text\<close>

lemma round_half_even_cases:
  "round_half_even q = \<lfloor>q\<rfloor> \<or> (round_half_even q = \<lfloor>q\<rfloor> + 1 \<and> of_int \<lfloor>q\<rfloor> < q)"
proof (cases "q - of_int \<lfloor>q\<rfloor> < 1 / 2")
  case True
  then show ?thesis by (simp add: round_half_even_def)
next
  case False
  then have "of_int \<lfloor>q\<rfloor> < q" by linarith
  then show ?thesis by (simp add: round_half_even_def Let_def)
qed

lemma round_half_even_bounds:
  assumes a: "of_int a \<le> q" and b: "q \<le> of_int b"
  shows "a \<le> round_half_even q \<and> round_half_even q \<le> b"
proof -
  have fa: "a \<le> \<lfloor>q\<rfloor>" using a by (simp add: le_floor_iff)
  have fb: "\<lfloor>q\<rfloor> \<le> b" using b by (simp add: floor_le_iff)
  have lt: "of_int \<lfloor>q\<rfloor> < q \<Longrightarrow> \<lfloor>q\<rfloor> < b"
  proof -
    assume "of_int \<lfloor>q\<rfloor> < q"
    with b have "(of_int \<lfloor>q\<rfloor> :: rat) < of_int b" by linarith
    then show ?thesis by (simp only: of_int_less_iff)
  qed
  show ?thesis
    using fa fb lt round_half_even_cases[of q] by linarith
qed

lemma clamp_num:
  "py_max (IntV (- 99)) (py_min (IntV 199) (FloatV t)) =
     (case t of
        Finite q \<Rightarrow> if q < 199 then (if - 99 < q then FloatV (Finite q) else IntV (- 99))
                    else IntV 199
      | PosInf \<Rightarrow> IntV 199
      | NegInf \<Rightarrow> IntV (- 99)
      | NaN \<Rightarrow> IntV 199)"
  by (cases t) (simp_all add: py_max_def py_min_def num_lt_def)

lemma py_str_chars: "\<forall>c \<in> set (py_str n). is_digit c \<or> c = CHR ''-''"
  using str_nat_digits by (simp add: py_str_def)

lemma py_str_no_dot: "CHR ''.'' \<notin> set (py_str n)"
proof
  assume "CHR ''.'' \<in> set (py_str n)"
  with py_str_chars[of n] have "is_digit CHR ''.'' \<or> CHR ''.'' = CHR ''-''" by blast
  then show False by (simp add: is_digit_def)
qed

lemma temp_raw_finite:
  "temp_raw (Some (Finite q)) = Inr (py_str (round_half_even (max (- 99) (min 199 q))))"
proof -
  have r1: "round_half_even (- 99) = - 99" by (simp add: round_half_even_def)
  have r2: "round_half_even 199 = 199" by (simp add: round_half_even_def)
  show ?thesis
    by (simp add: temp_raw_def clamp_num max_def min_def r1 r2)
qed

lemma temp_raw_range:
  "\<exists>n. temp_raw (Some t) = Inr (py_str n) \<and> - 99 \<le> n \<and> n \<le> 199"
proof (cases t)
  case (Finite q)
  have "of_int (- 99) \<le> max (- 99) (min 199 q)" "max (- 99) (min 199 q) \<le> of_int 199"
    by simp_all
  from round_half_even_bounds[OF this] show ?thesis
    unfolding Finite temp_raw_finite by blast
next
  case PosInf
  have "temp_raw (Some t) = Inr (py_str 199)" by (simp add: PosInf temp_raw_def clamp_num)
  then show ?thesis by (intro exI[of _ 199]) simp
next
  case NegInf
  have "temp_raw (Some t) = Inr (py_str (- 99))" by (simp add: NegInf temp_raw_def clamp_num)
  then show ?thesis by (intro exI[of _ "- 99"]) simp
next
  case NaN
  have "temp_raw (Some t) = Inr (py_str 199)" by (simp add: NaN temp_raw_def clamp_num)
  then show ?thesis by (intro exI[of _ 199]) simp
qed

lemma temp_raw_total: "\<exists>raw. temp_raw t = Inr raw"
proof (cases t)
  case None
  then show ?thesis by (simp add: temp_raw_def)
next
  case (Some a)
  then show ?thesis using temp_raw_range[of a] by auto
qed



subsection \<open>The 3x5 font\<close>












subsection \<open>Layout of the time\<close>

lemma layout_fields:
  "t_hh (time_layout dev s fnt lr gap cw off) = fst (split_time s)"
  "t_mm (time_layout dev s fnt lr gap cw off) = snd (split_time s)"
  "t_w_h (time_layout dev s fnt lr gap cw off) = fst (fnt (fst (split_time s)))"
  "t_h (time_layout dev s fnt lr gap cw off) = snd (fnt (fst (split_time s)))"
  "t_y (time_layout dev s fnt lr gap cw off)
     = max 0 ((height dev - snd (fnt (fst (split_time s)))) div 2)"
  "t_w_time (time_layout dev s fnt lr gap cw off)
     = fst (fnt (fst (split_time s))) + gap + cw + gap + fst (fnt (snd (split_time s)))"
  by (simp_all add: time_layout_def Let_def case_prod_beta)

lemma layout_left_reserved:
  "t_left_reserved (time_layout dev s fnt lr gap cw off)
     = (if lr + t_w_time (time_layout dev s fnt lr gap cw off) > width dev
        then max 0 (width dev - t_w_time (time_layout dev s fnt lr gap cw off)) else lr)"
  by (simp add: time_layout_def Let_def case_prod_beta)

lemma layout_x0:
  "t_x0 (time_layout dev s fnt lr gap cw off)
     = max 0 (width dev - (t_left_reserved (time_layout dev s fnt lr gap cw off)
                           + t_w_time (time_layout dev s fnt lr gap cw off))) + off"
  by (simp add: time_layout_def Let_def case_prod_beta)

lemma layout_cx:
  "t_cx (time_layout dev s fnt lr gap cw off)
   = t_x0 (time_layout dev s fnt lr gap cw off) + t_left_reserved (time_layout dev s fnt lr gap cw off)
     + t_w_h (time_layout dev s fnt lr gap cw off) + gap"
  by (simp add: time_layout_def Let_def case_prod_beta)

lemma layout_start:
  assumes "0 \<le> lr"
  shows "t_x0 (time_layout dev s fnt lr gap cw off) + t_left_reserved (time_layout dev s fnt lr gap cw off)
         = max 0 (width dev - t_w_time (time_layout dev s fnt lr gap cw off)) + off"
  using assms unfolding layout_x0 layout_left_reserved by auto

lemma layout_w_time:
  "t_w_time (time_layout dev s fnt lr gap cw off) = t_w_time (time_layout dev s fnt lr' gap cw off')"
  by (simp add: layout_fields)

lemma layout_other_fields:
  "t_hh (time_layout dev s fnt lr gap cw off) = t_hh (time_layout dev s fnt lr' gap cw off')"
  "t_mm (time_layout dev s fnt lr gap cw off) = t_mm (time_layout dev s fnt lr' gap cw off')"
  "t_w_h (time_layout dev s fnt lr gap cw off) = t_w_h (time_layout dev s fnt lr' gap cw off')"
  "t_h (time_layout dev s fnt lr gap cw off) = t_h (time_layout dev s fnt lr' gap cw off')"
  "t_y (time_layout dev s fnt lr gap cw off) = t_y (time_layout dev s fnt lr' gap cw off')"
  by (simp_all add: layout_fields)

lemma draw_time_ops:
  "draw_time_with_custom_colon dev s fnt blink lr gap cw vgap off =
     (let l = time_layout dev s fnt lr gap cw off;
          x = t_x0 l + t_left_reserved l;
          c = x + t_w_h l + gap
      in Text x (t_y l) (t_hh l)
         # (if blink then []
            else [Point c (t_y l + max 0 ((t_h l - 1 - vgap) div 2)),
                  Point c (min (t_y l + t_h l - 1)
                               (t_y l + max 0 ((t_h l - 1 - vgap) div 2) + vgap))])
         @ [Text (c + cw + gap) (t_y l) (t_mm l)])"
  by (simp add: draw_time_with_custom_colon_def draw_colon_def Let_def layout_cx)

lemma draw_time_reservation:
  assumes "0 \<le> lr" "0 \<le> lr'"
  shows "draw_time_with_custom_colon dev s fnt blink lr gap cw vgap off
       = draw_time_with_custom_colon dev s fnt blink lr' gap cw vgap off"
proof -
  have x: "t_x0 (time_layout dev s fnt lr gap cw off) + t_left_reserved (time_layout dev s fnt lr gap cw off)
         = t_x0 (time_layout dev s fnt lr' gap cw off) + t_left_reserved (time_layout dev s fnt lr' gap cw off)"
    using layout_start[OF assms(1)] layout_start[OF assms(2)]
      layout_w_time[of dev s fnt lr gap cw off lr' off] by simp
  show ?thesis
    unfolding draw_time_ops Let_def x
    using layout_other_fields[of dev s fnt lr gap cw off lr' off] by simp
qed

text \<open>
  Claim C2. For every time string, font and requested reservation \<open>lr \<ge> 0\<close>, with
  \<open>hh\<close> and \<open>mm\<close> the two parts of the time string, \<open>wh\<close> and \<open>wm\<close> their widths in
  the font and \<open>wt = wh + gap + colon_w + gap + wm\<close> the width of the time: when the
  reservation plus \<open>wt\<close> exceeds the display width, the renderer uses
  \<open>max(0, width - wt)\<close> instead, and otherwise the reservation as given, so the
  adjustment never increases it. The hours are then drawn at \<open>x = max(0, width - wt)\<close>
  (plus the offset), the colon column \<open>wh + gap\<close> further right and the minutes
  \<open>colon_w + gap\<close> after the colon: the drawing depends on the reservation not at all,
  and any two reservations \<open>\<ge> 0\<close> give the same drawing calls. When the time fits the
  display (\<open>wt \<le> width\<close>), the hours start at a column \<open>\<ge> 0\<close> and the minutes end at
  the right edge; with widths and gaps that are not negative, hours, colon and minutes
  lie side by side within the display.
\<close>

theorem time_reservation_never_shifts:
  fixes dev :: device and s :: string and fnt :: font and lr lr' gap cw vgap off :: int
    and blink :: bool
  defines "hh \<equiv> fst (split_time s)"
      and "mm \<equiv> snd (split_time s)"
      and "wh \<equiv> fst (fnt (fst (split_time s)))"
      and "wm \<equiv> fst (fnt (snd (split_time s)))"
      and "th \<equiv> snd (fnt (fst (split_time s)))"
      and "wt \<equiv> fst (fnt (fst (split_time s))) + gap + cw + gap + fst (fnt (snd (split_time s)))"
      and "x \<equiv> max 0 (width dev
                 - (fst (fnt (fst (split_time s))) + gap + cw + gap + fst (fnt (snd (split_time s)))))"
      and "ty \<equiv> max 0 ((height dev - snd (fnt (fst (split_time s)))) div 2)"
      and "L \<equiv> time_layout dev s fnt lr gap cw 0"
  shows "0 \<le> lr \<longrightarrow>
       t_w_time L = wt
     \<and> t_left_reserved L = (if lr + wt > width dev then max 0 (width dev - wt) else lr)
     \<and> t_left_reserved L \<le> lr
     \<and> t_x0 L + t_left_reserved L = x
     \<and> draw_time_with_custom_colon dev s fnt blink lr gap cw vgap off
         = Text (x + off) ty hh
           # (if blink then []
              else [Point (x + off + wh + gap) (ty + max 0 ((th - 1 - vgap) div 2)),
                    Point (x + off + wh + gap)
                          (min (ty + th - 1) (ty + max 0 ((th - 1 - vgap) div 2) + vgap))])
           @ [Text (x + off + wh + gap + cw + gap) ty mm]
     \<and> (0 \<le> lr' \<longrightarrow>
           draw_time_with_custom_colon dev s fnt blink lr' gap cw vgap off
             = draw_time_with_custom_colon dev s fnt blink lr gap cw vgap off)
     \<and> (wt \<le> width dev \<longrightarrow>
           0 \<le> x \<and> x + wt = width dev \<and> (x + wh + gap + cw + gap) + wm = width dev)
     \<and> (wt \<le> width dev \<and> 0 \<le> wh \<and> 0 \<le> gap \<and> 0 \<le> cw \<and> 0 \<le> wm \<longrightarrow>
           0 \<le> x \<and> x + wh \<le> x + wh + gap
         \<and> (x + wh + gap) + cw \<le> x + wh + gap + cw + gap
         \<and> (x + wh + gap + cw + gap) + wm \<le> width dev)"
proof
  assume lr: "0 \<le> lr"
  have w: "t_w_time L = wt"
    unfolding L_def wt_def by (simp add: layout_fields)
  have a: "t_left_reserved L = (if lr + wt > width dev then max 0 (width dev - wt) else lr)"
    using layout_left_reserved[of dev s fnt lr gap cw 0] unfolding L_def[symmetric] w .
  have b: "t_left_reserved L \<le> lr" using lr a by auto
  have c: "t_x0 L + t_left_reserved L = x"
    using layout_start[OF lr, of dev s fnt gap cw 0] w by (simp add: L_def x_def wt_def)
  have wo: "t_w_time (time_layout dev s fnt lr gap cw off) = wt"
    unfolding wt_def by (simp add: layout_fields)
  have co: "t_x0 (time_layout dev s fnt lr gap cw off)
              + t_left_reserved (time_layout dev s fnt lr gap cw off) = x + off"
    using layout_start[OF lr, of dev s fnt gap cw off] wo by (simp add: x_def wt_def)
  have d: "draw_time_with_custom_colon dev s fnt blink lr gap cw vgap off
         = Text (x + off) ty hh
           # (if blink then []
              else [Point (x + off + wh + gap) (ty + max 0 ((th - 1 - vgap) div 2)),
                    Point (x + off + wh + gap)
                          (min (ty + th - 1) (ty + max 0 ((th - 1 - vgap) div 2) + vgap))])
           @ [Text (x + off + wh + gap + cw + gap) ty mm]"
    unfolding draw_time_ops Let_def co
    by (simp add: layout_fields hh_def mm_def wh_def th_def ty_def)
  have e: "0 \<le> lr' \<longrightarrow>
           draw_time_with_custom_colon dev s fnt blink lr' gap cw vgap off
             = draw_time_with_custom_colon dev s fnt blink lr gap cw vgap off"
    using draw_time_reservation[OF _ lr, of lr' dev s fnt blink gap cw vgap off] by simp
  have f: "wt \<le> width dev \<longrightarrow>
           0 \<le> x \<and> x + wt = width dev \<and> (x + wh + gap + cw + gap) + wm = width dev"
    by (simp add: x_def wt_def wh_def wm_def)
  have g: "wt \<le> width dev \<and> 0 \<le> wh \<and> 0 \<le> gap \<and> 0 \<le> cw \<and> 0 \<le> wm \<longrightarrow>
           0 \<le> x \<and> x + wh \<le> x + wh + gap
         \<and> (x + wh + gap) + cw \<le> x + wh + gap + cw + gap
         \<and> (x + wh + gap + cw + gap) + wm \<le> width dev"
    by (simp add: x_def wt_def wh_def wm_def)
  show "t_w_time L = wt
     \<and> t_left_reserved L = (if lr + wt > width dev then max 0 (width dev - wt) else lr)
     \<and> t_left_reserved L \<le> lr
     \<and> t_x0 L + t_left_reserved L = x
     \<and> draw_time_with_custom_colon dev s fnt blink lr gap cw vgap off
         = Text (x + off) ty hh
           # (if blink then []
              else [Point (x + off + wh + gap) (ty + max 0 ((th - 1 - vgap) div 2)),
                    Point (x + off + wh + gap)
                          (min (ty + th - 1) (ty + max 0 ((th - 1 - vgap) div 2) + vgap))])
           @ [Text (x + off + wh + gap + cw + gap) ty mm]
     \<and> (0 \<le> lr' \<longrightarrow>
           draw_time_with_custom_colon dev s fnt blink lr' gap cw vgap off
             = draw_time_with_custom_colon dev s fnt blink lr gap cw vgap off)
     \<and> (wt \<le> width dev \<longrightarrow>
           0 \<le> x \<and> x + wt = width dev \<and> (x + wh + gap + cw + gap) + wm = width dev)
     \<and> (wt \<le> width dev \<and> 0 \<le> wh \<and> 0 \<le> gap \<and> 0 \<le> cw \<and> 0 \<le> wm \<longrightarrow>
           0 \<le> x \<and> x + wh \<le> x + wh + gap
         \<and> (x + wh + gap) + cw \<le> x + wh + gap + cw + gap
         \<and> (x + wh + gap + cw + gap) + wm \<le> width dev)"
    using w a b c d e f g by blast
qed

lemmas time_eval = time_layout_def split_time_def draw_time_with_custom_colon_def draw_colon_def
  Let_def

theorem time_reservation_never_shifts_witness:
  "t_left_reserved (time_layout \<lparr>width = 32, height = 8\<rparr> ''12:34''
       (\<lambda>s. (4 * int (length s), 6)) 20 1 1 0) = 13
   \<and> t_w_time (time_layout \<lparr>width = 32, height = 8\<rparr> ''12:34''
       (\<lambda>s. (4 * int (length s), 6)) 20 1 1 0) = 19
   \<and> draw_time_with_custom_colon \<lparr>width = 32, height = 8\<rparr> ''12:34''
       (\<lambda>s. (4 * int (length s), 6)) False 20 1 1 2 0
     = [Text 13 1 ''12'', Point 22 2, Point 22 4, Text 24 1 ''34'']
   \<and> draw_time_with_custom_colon \<lparr>width = 32, height = 8\<rparr> ''12:34''
       (\<lambda>s. (4 * int (length s), 6)) False 7 1 1 2 0
     = [Text 13 1 ''12'', Point 22 2, Point 22 4, Text 24 1 ''34'']"
proof -
  let ?dev = "\<lparr>width = 32, height = 8\<rparr>"
  let ?fnt = "\<lambda>s. (4 * int (length s), 6)"
  have sp: "split_time ''12:34'' = (''12'', ''34'')"
    by (simp add: split_time_def)
  have "t_w_time (time_layout ?dev ''12:34'' ?fnt 20 1 1 0) = 19
      \<and> t_left_reserved (time_layout ?dev ''12:34'' ?fnt 20 1 1 0) = 13
      \<and> draw_time_with_custom_colon ?dev ''12:34'' ?fnt False 20 1 1 2 0
        = [Text 13 1 ''12'', Point 22 2, Point 22 4, Text 24 1 ''34'']
      \<and> draw_time_with_custom_colon ?dev ''12:34'' ?fnt False 7 1 1 2 0
        = draw_time_with_custom_colon ?dev ''12:34'' ?fnt False 20 1 1 2 0"
    using time_reservation_never_shifts [where dev = ?dev
      and s = "''12:34''" and fnt = ?fnt and lr = 20 and lr' = 7
      and gap = 1 and cw = 1 and vgap = 2 and off = 0 and blink = False]
    by (simp add: sp)
  then show ?thesis by simp
qed

subsection \<open>The date ticker\<close>

lemma marquee_loop_ok:
  assumes "sleep sp = None"
  shows "marquee_loop sleep stop k dev t th sp offs =
     (concat (map (marquee_frame dev t th sp)
        (take (length (takeWhile (\<lambda>j. \<not> stop j) [k..<k + length offs])) offs)), None)"
proof (induction offs arbitrary: k)
  case Nil
  then show ?case by simp
next
  case (Cons off rest)
  have u: "[k..<k + length (off # rest)] = k # [Suc k..<Suc k + length rest]"
    by (subst upt_rec) simp
  show ?case
    unfolding u using Cons.IH[of "Suc k"] assms by (simp add: marquee_frame_def)
qed

lemma marquee_loop_raise:
  assumes "sleep sp = Some e"
  shows "marquee_loop sleep stop k dev t th sp offs =
     (if offs = [] \<or> stop k then ([], None) else (marquee_frame dev t th sp (hd offs), Some e))"
  using assms by (cases offs) (simp_all add: marquee_frame_def)

lemma frames_of_marquee:
  "frames_of (concat (map (marquee_frame dev t th sp) offs))
     = map (\<lambda>off. [LegacyText (width dev - off) (max 0 ((height dev - th) div 2)) t]) offs"
  by (induction offs) (simp_all add: marquee_frame_def)

lemma take_concat_pairs:
  "concat (map (marquee_frame dev t th sp) (take m offs))
     = take (2 * m) (concat (map (marquee_frame dev t th sp) offs))"
proof (induction offs arbitrary: m)
  case Nil
  then show ?case by simp
next
  case (Cons a offs)
  then show ?case by (cases m) (simp_all add: marquee_frame_def)
qed

text \<open>
  Claim C6, as amended. For a ticker text of pixel width \<open>w\<close> and height \<open>th\<close>, let
  \<open>tot = device.width + w + gap\<close>. When \<open>time.sleep\<close> accepts the configured delay, the
  marquee left alone is one frame and one sleep of that delay for each offset
  \<open>0, 1, ..., tot - 1\<close>: it draws \<open>max(0, tot)\<close> frames, the \<open>i\<close>-th with the text at
  \<open>x = device.width - i\<close>, so when \<open>tot \<ge> 1\<close> the text starts at \<open>device.width\<close> and moves
  one pixel per frame down to \<open>1 - w - gap\<close>; with the shutdown flag, it is the same
  sequence cut before the first round whose test reads the flag set, and it returns
  without an exception. When \<open>time.sleep\<close> rejects the delay (a negative one, say), the
  marquee draws its first frame only and leaves with the exception of \<open>time.sleep\<close>,
  unless there is no frame to draw or the flag is set at once.
\<close>

theorem marquee_frames:
  fixes dev :: device and t :: string and fnt :: font and sp :: 'f and gap :: int
    and stop :: stop_flag and sleep :: "'f sleeper"
  defines "w \<equiv> fst (fnt t)"
      and "th \<equiv> snd (fnt t)"
      and "tot \<equiv> width dev + fst (fnt t) + gap"
      and "run \<equiv> fst (marquee_once_legacy sleep (\<lambda>_. False) dev t fnt sp gap)"
  shows "(sleep sp = None \<longrightarrow>
           marquee_once_legacy sleep (\<lambda>_. False) dev t fnt sp gap
             = (concat (map (marquee_frame dev t th sp) [0..tot - 1]), None)
         \<and> int (length (frames_of run)) = max 0 tot
         \<and> (\<forall>i. i < length (frames_of run) \<longrightarrow>
              frames_of run ! i
                = [LegacyText (width dev - int i) (max 0 ((height dev - th) div 2)) t])
         \<and> (1 \<le> tot \<longrightarrow>
              hd (frames_of run) = [LegacyText (width dev) (max 0 ((height dev - th) div 2)) t]
            \<and> last (frames_of run)
                = [LegacyText (1 - w - gap) (max 0 ((height dev - th) div 2)) t])
         \<and> marquee_once_legacy sleep stop dev t fnt sp gap
             = (take (2 * length (takeWhile (\<lambda>j. \<not> stop j) [0..<nat tot])) run, None))
       \<and> (sleep sp = Some e \<longrightarrow>
           marquee_once_legacy sleep stop dev t fnt sp gap
             = (if tot \<le> 0 \<or> stop 0 then ([], None)
                else ([Frame [LegacyText (width dev) (max 0 ((height dev - th) div 2)) t],
                       Sleep sp], Some e)))"
proof (intro conjI impI)
  let ?offs = "[0..tot - 1]"
  let ?y = "max 0 ((height dev - th) div 2)"
  have len: "length ?offs = nat tot" by simp
  have unf: "marquee_once_legacy sleep st dev t fnt sp gap
             = marquee_loop sleep st 0 dev t th sp ?offs" for st
    by (simp add: marquee_once_legacy_def case_prod_beta Let_def tot_def th_def)
  {
    assume ok: "sleep sp = None"
    have "takeWhile (\<lambda>j. \<not> False) [0..<nat tot] = [0..<nat tot]" by simp
    then have tw: "length (takeWhile (\<lambda>j. \<not> False) [0..<nat tot]) = nat tot"
      by (simp only: length_upt diff_zero)
    show full: "marquee_once_legacy sleep (\<lambda>_. False) dev t fnt sp gap
             = (concat (map (marquee_frame dev t th sp) ?offs), None)"
      unfolding unf
      using marquee_loop_ok[where sleep = sleep and sp = sp and stop = "\<lambda>_. False" and k = 0
              and dev = dev and t = t and th = th and offs = ?offs, OF ok]
      by (simp only: len add_0 tw) simp
    then have run: "run = concat (map (marquee_frame dev t th sp) ?offs)"
      by (simp add: run_def)
    have fr: "frames_of run = map (\<lambda>off. [LegacyText (width dev - off) ?y t]) ?offs"
      by (simp add: run frames_of_marquee)
    show "int (length (frames_of run)) = max 0 tot"
      by (simp add: fr)
    show "\<forall>i. i < length (frames_of run) \<longrightarrow>
            frames_of run ! i = [LegacyText (width dev - int i) ?y t]"
    proof (intro allI impI)
      fix i assume "i < length (frames_of run)"
      then have i: "i < nat tot" by (simp add: fr)
      then have "?offs ! i = int i" by (simp add: nth_upto)
      with i show "frames_of run ! i = [LegacyText (width dev - int i) ?y t]"
        by (simp add: fr)
    qed
    show "marquee_once_legacy sleep stop dev t fnt sp gap
           = (take (2 * length (takeWhile (\<lambda>j. \<not> stop j) [0..<nat tot])) run, None)"
      unfolding unf
      using marquee_loop_ok[where sleep = sleep and sp = sp and stop = stop and k = 0
              and dev = dev and t = t and th = th and offs = ?offs, OF ok]
      by (simp only: len add_0 take_concat_pairs run)
    {
      assume t1: "1 \<le> tot"
      then have ne: "?offs \<noteq> []" by simp
      have h: "hd ?offs = 0" using t1 by (simp add: upto.simps)
      have l: "last ?offs = tot - 1" using t1 ne by (simp add: last_conv_nth nth_upto)
      have "hd (frames_of run) = [LegacyText (width dev - hd ?offs) ?y t]"
        unfolding fr using ne by (simp add: hd_map)
      then show "hd (frames_of run) = [LegacyText (width dev) ?y t]"
        unfolding h by simp
      have "last (frames_of run) = [LegacyText (width dev - last ?offs) ?y t]"
        unfolding fr using ne by (simp add: last_map)
      then show "last (frames_of run) = [LegacyText (1 - w - gap) ?y t]"
        unfolding l by (simp add: tot_def w_def)
    }
  }
  {
    assume bad: "sleep sp = Some e"
    have "tot < 1 \<longleftrightarrow> tot \<le> 0" by presburger
    then have e: "?offs = [] \<longleftrightarrow> tot \<le> 0" by simp
    have h: "tot > 0 \<Longrightarrow> hd ?offs = 0" by (simp add: upto.simps)
    show "marquee_once_legacy sleep stop dev t fnt sp gap
             = (if tot \<le> 0 \<or> stop 0 then ([], None)
                else ([Frame [LegacyText (width dev) ?y t], Sleep sp], Some e))"
      unfolding unf
        marquee_loop_raise[where sleep = sleep and sp = sp and e = e, OF bad] e
      using h by (simp add: marquee_frame_def)
  }
qed

theorem marquee_frames_witness:
  "frames_of (fst (marquee_once_legacy (\<lambda>d. if d < 0 then Some ValueError else None)
       (\<lambda>_. False) \<lparr>width = 2, height = 8\<rparr> ''a'' (\<lambda>s. (int (length s), 6)) (7 / 100 :: rat) 1))
     = [[LegacyText 2 1 ''a''], [LegacyText 1 1 ''a''], [LegacyText 0 1 ''a''],
        [LegacyText (- 1) 1 ''a'']]
   \<and> marquee_once_legacy (\<lambda>d. if d < 0 then Some ValueError else None)
       (\<lambda>k. 2 \<le> k) \<lparr>width = 2, height = 8\<rparr> ''a'' (\<lambda>s. (int (length s), 6)) (7 / 100 :: rat) 1
     = ([Frame [LegacyText 2 1 ''a''], Sleep (7 / 100), Frame [LegacyText 1 1 ''a''],
         Sleep (7 / 100)], None)
   \<and> marquee_once_legacy (\<lambda>d. if d < 0 then Some ValueError else None)
       (\<lambda>_. False) \<lparr>width = 2, height = 8\<rparr> ''a'' (\<lambda>s. (int (length s), 6)) (- 7 / 100 :: rat) 1
     = ([Frame [LegacyText 2 1 ''a''], Sleep (- 7 / 100)], Some ValueError)"
proof -
  let ?dev = "\<lparr>width = 2, height = 8\<rparr>"
  let ?fnt = "\<lambda>s. (int (length s), 6)"
  let ?sl = "\<lambda>d :: rat. if d < 0 then Some ValueError else None"
  let ?run = "fst (marquee_once_legacy ?sl (\<lambda>_. False) ?dev ''a'' ?fnt (7 / 100 :: rat) 1)"
  have off: "[0..(3::int)] = [0, 1, 2, 3]" by (simp add: upto.simps)
  have tw: "length (takeWhile (\<lambda>j. \<not> 2 \<le> j) [0..<4]) = (2::nat)"
    by code_simp
  have a: "marquee_once_legacy ?sl (\<lambda>_. False) ?dev ''a'' ?fnt (7 / 100 :: rat) 1
         = ([Frame [LegacyText 2 1 ''a''], Sleep (7 / 100),
             Frame [LegacyText 1 1 ''a''], Sleep (7 / 100),
             Frame [LegacyText 0 1 ''a''], Sleep (7 / 100),
             Frame [LegacyText (- 1) 1 ''a''], Sleep (7 / 100)], None)
         \<and> marquee_once_legacy ?sl (\<lambda>k. 2 \<le> k) ?dev ''a'' ?fnt (7 / 100 :: rat) 1
         = (take (2 * length (takeWhile (\<lambda>j. \<not> 2 \<le> j) [0..<nat 4])) ?run, None)"
    using marquee_frames [where dev = ?dev and t = "''a''" and fnt = ?fnt
        and sp = "7 / 100 :: rat" and gap = 1 and stop = "\<lambda>k. 2 \<le> k" and sleep = ?sl
        and e = ValueError]
    by (simp add: off marquee_frame_def)
  have b: "marquee_once_legacy ?sl (\<lambda>_. False) ?dev ''a'' ?fnt (- 7 / 100 :: rat) 1
         = ([Frame [LegacyText 2 1 ''a''], Sleep (- 7 / 100)], Some ValueError)"
    using marquee_frames [where dev = ?dev and t = "''a''" and fnt = ?fnt
        and sp = "- 7 / 100 :: rat" and gap = 1 and stop = "\<lambda>_. False" and sleep = ?sl
        and e = ValueError]
    by simp
  show ?thesis using a b by (simp add: tw)
qed

text \<open>
  The claim as stated gives \<open>device.width + w + gap\<close> as the number of frames for every
  text. With \<open>LED_TICKER_GAP=-100\<close> on a 32 pixel display and a 12 pixel text that number
  is -56; the loop runs over an empty range, draws no frame and returns.
\<close>

theorem marquee_negative_total:
  "marquee_once_legacy (\<lambda>d. if d < 0 then Some ValueError else None) (\<lambda>_. False)
       \<lparr>width = 32, height = 8\<rparr> ''Sun'' (\<lambda>s. (4 * int (length s), 6)) (7 / 100 :: rat) (- 100)
     = ([], None)
   \<and> width \<lparr>width = 32, height = 8\<rparr> + fst ((\<lambda>s. (4 * int (length s), 6)) ''Sun'') + (- 100)
     = - 56"
  by (simp add: marquee_once_legacy_def)

end
